theory Spec2Isabelle
  imports Complex_Main "HOL-Library.Word" "HOL-Library.Multiset" "HOL-Library.AList"
    "HOL-Library.Log_Nat"
begin

section \<open>JavaScript values\<close>

text \<open>
  The SDK is JavaScript/TypeScript (\<^verbatim>\<open>js/src/index.js\<close>, \<^verbatim>\<open>js/src/properties.ts\<close>,
  \<^verbatim>\<open>js/src/typed.ts\<close>).  Conventions of the embedding:

  \<^item> A JavaScript string is represented by the bytes of the UTF-8 encoding of its code
    points, as an Isabelle \<open>string\<close>, an unpaired surrogate being encoded like any other
    code point of its range, as the three bytes \<open>ED A0..BF 80..BF\<close> (the generalised
    UTF-8 known as WTF-8).  Every string has exactly one such representation; for a
    well-formed string, one without unpaired surrogate, it is the UTF-8 encoding.
  \<^item> A JavaScript \<^verbatim>\<open>number\<close> is an IEEE 754 double: the type \<open>number\<close> below, whose
    addition rounds to the nearest double, ties to even.  The clock and the timestamp
    that \<^verbatim>\<open>parseInt\<close> reads, which the code only subtracts and compares, are \<open>int\<close>
    (the two agree while the values stay within the safe-integer range \<open>\<plusminus>2^53\<close>), with
    \<open>None\<close> for the \<^verbatim>\<open>NaN\<close> of \<^verbatim>\<open>parseInt\<close>.
  \<^item> A thrown exception or a rejected promise is the \<open>Inl\<close> of a sum; \<^verbatim>\<open>await\<close> is
    sequencing.
  \<^item> Objects that are shared and mutated live in an explicit store; a reference is an
    index into it.
\<close>

type_synonym byte = "8 word"

text \<open>
  Numbers.  A finite double is represented by its value, a real number; not every real
  is the value of a double, and \<open>is_double x\<close> says that \<open>x\<close> is.  Negative zero is
  identified with zero: a sum is \<^verbatim>\<open>-0\<close> only when both operands are, so a field that starts
  at \<^verbatim>\<open>+0\<close> never holds \<^verbatim>\<open>-0\<close>, and adding \<^verbatim>\<open>-0\<close> to it is adding \<^verbatim>\<open>0\<close>.

  \<open>to_double x\<close> is the double nearest to \<open>x\<close>, as IEEE 754 rounds the exact result of an
  operation: the significand has 53 bits, the exponent of its last place is at least
  \<open>-1074\<close> (\<open>exponent\<close>), a tie goes to the even significand (\<open>round_half_even\<close>), and a
  magnitude that rounds to \<open>2^1024\<close> or more gives an infinity.  \<open>ilog2 a\<close> is the integer part
  of the binary logarithm of \<open>a > 0\<close>, \<open>pow2 e\<close> is \<open>2^e\<close>.
\<close>

datatype number = NaN | PosInfinity | NegInfinity | Finite real

definition pow2 :: "int \<Rightarrow> real" where
  "pow2 e = (if 0 \<le> e then 2 ^ nat e else 1 / 2 ^ nat (- e))"

definition ilog2 :: "real \<Rightarrow> int" where
  "ilog2 a = (if 1 \<le> a then bitlen \<lfloor>a\<rfloor> - 1 else - bitlen (\<lceil>1 / a\<rceil> - 1))"

definition round_half_even :: "real \<Rightarrow> int" where
  "round_half_even q =
     (if q - of_int \<lfloor>q\<rfloor> < 1 / 2 then \<lfloor>q\<rfloor>
      else if 1 / 2 < q - of_int \<lfloor>q\<rfloor> then \<lfloor>q\<rfloor> + 1
      else if even \<lfloor>q\<rfloor> then \<lfloor>q\<rfloor> else \<lfloor>q\<rfloor> + 1)"

definition exponent :: "real \<Rightarrow> int" where
  "exponent a = max (ilog2 a - 52) (- 1074)"

definition nearest :: "real \<Rightarrow> real" where
  "nearest a = of_int (round_half_even (a / pow2 (exponent a))) * pow2 (exponent a)"

definition to_double :: "real \<Rightarrow> number" where
  "to_double x =
     (if x = 0 then Finite 0
      else if 2 ^ 1024 \<le> nearest \<bar>x\<bar> then (if 0 < x then PosInfinity else NegInfinity)
      else Finite (if 0 < x then nearest \<bar>x\<bar> else - nearest \<bar>x\<bar>))"

definition is_double :: "real \<Rightarrow> bool" where
  "is_double x = (to_double x = Finite x)"

text \<open>
  \<^verbatim>\<open>x + y\<close> on numbers: \<^verbatim>\<open>NaN\<close> is absorbing, the two infinities add to \<^verbatim>\<open>NaN\<close>, an
  infinity absorbs every finite number, and two finite numbers give the double nearest
  to their exact sum.
\<close>

fun number_add :: "number \<Rightarrow> number \<Rightarrow> number" where
  "number_add (Finite x) (Finite y) = to_double (x + y)"
| "number_add NaN _ = NaN"
| "number_add _ NaN = NaN"
| "number_add PosInfinity NegInfinity = NaN"
| "number_add NegInfinity PosInfinity = NaN"
| "number_add PosInfinity _ = PosInfinity"
| "number_add _ PosInfinity = PosInfinity"
| "number_add NegInfinity _ = NegInfinity"
| "number_add _ NegInfinity = NegInfinity"

datatype jsval = VUndefined | VNull | VBool bool | VNum number | VStr string | VRef nat

text \<open>An object: its own enumerable string-keyed properties, in insertion order.\<close>

type_synonym obj = "(string \<times> jsval) list"

section \<open>properties.ts: the delta builder\<close>

text \<open>
  \<^verbatim>\<open>
  export class DeltaBuilder {
      #years = 0; #months = 0; #days = 0; #hours = 0; #minutes = 0; #seconds = 0;
      years(years: number) { this.#years += years; return this; }
      ... (months, days, hours, minutes, seconds alike)
      toObject() {
          return { years: this.#years, months: this.#months, days: this.#days,
                   hours: this.#hours, minutes: this.#minutes, seconds: this.#seconds };
      }
  }
  \<close>
  The private fields are the record; each method returns the updated builder
  (\<^verbatim>\<open>return this\<close>).
\<close>

record DeltaBuilder =
  p_years :: number
  p_months :: number
  p_days :: number
  p_hours :: number
  p_minutes :: number
  p_seconds :: number

definition new_DeltaBuilder :: DeltaBuilder where
  "new_DeltaBuilder =
     \<lparr>p_years = Finite 0, p_months = Finite 0, p_days = Finite 0, p_hours = Finite 0,
      p_minutes = Finite 0, p_seconds = Finite 0\<rparr>"

definition years :: "number \<Rightarrow> DeltaBuilder \<Rightarrow> DeltaBuilder" where
  "years n this = this\<lparr>p_years := number_add (p_years this) n\<rparr>"

definition months :: "number \<Rightarrow> DeltaBuilder \<Rightarrow> DeltaBuilder" where
  "months n this = this\<lparr>p_months := number_add (p_months this) n\<rparr>"

definition days :: "number \<Rightarrow> DeltaBuilder \<Rightarrow> DeltaBuilder" where
  "days n this = this\<lparr>p_days := number_add (p_days this) n\<rparr>"

definition hours :: "number \<Rightarrow> DeltaBuilder \<Rightarrow> DeltaBuilder" where
  "hours n this = this\<lparr>p_hours := number_add (p_hours this) n\<rparr>"

definition minutes :: "number \<Rightarrow> DeltaBuilder \<Rightarrow> DeltaBuilder" where
  "minutes n this = this\<lparr>p_minutes := number_add (p_minutes this) n\<rparr>"

definition seconds :: "number \<Rightarrow> DeltaBuilder \<Rightarrow> DeltaBuilder" where
  "seconds n this = this\<lparr>p_seconds := number_add (p_seconds this) n\<rparr>"

definition DeltaBuilder_toObject :: "DeltaBuilder \<Rightarrow> obj" where
  "DeltaBuilder_toObject this =
     [(''years'', VNum (p_years this)), (''months'', VNum (p_months this)),
      (''days'', VNum (p_days this)), (''hours'', VNum (p_hours this)),
      (''minutes'', VNum (p_minutes this)), (''seconds'', VNum (p_seconds this))]"

text \<open>
  A sequence of unit-method calls on a fresh builder, for stating properties of every
  such sequence: \<open>(u, n)\<close> is the call of unit \<open>u\<close>'s method with argument \<open>n\<close>, and
  \<open>field_of u\<close> reads the private field of unit \<open>u\<close>.
\<close>

datatype unit_method = Years | Months | Days | Hours | Minutes | Seconds

fun call_method :: "DeltaBuilder \<Rightarrow> unit_method \<times> number \<Rightarrow> DeltaBuilder" where
  "call_method d (Years, n) = years n d"
| "call_method d (Months, n) = months n d"
| "call_method d (Days, n) = days n d"
| "call_method d (Hours, n) = hours n d"
| "call_method d (Minutes, n) = minutes n d"
| "call_method d (Seconds, n) = seconds n d"

definition call_sequence :: "(unit_method \<times> number) list \<Rightarrow> DeltaBuilder" where
  "call_sequence cs = foldl call_method new_DeltaBuilder cs"

text \<open>
  Calls whose arguments are integers: \<open>integer_calls\<close> passes each as a number.
  \<open>passed_total u cs\<close> is the sum of the values passed to unit \<open>u\<close>'s method in the
  sequence, \<open>passed_magnitude u cs\<close> the sum of their absolute values; the sequence is
  \<open>within_safe_range\<close> when no unit's magnitude exceeds \<open>2^53\<close>, so that every partial sum,
  in whatever order the calls are made, is an integer that a double holds exactly.
\<close>

definition integer_calls :: "(unit_method \<times> int) list \<Rightarrow> (unit_method \<times> number) list" where
  "integer_calls cs = map (\<lambda>(u, n). (u, Finite (of_int n))) cs"

definition passed_total :: "unit_method \<Rightarrow> (unit_method \<times> int) list \<Rightarrow> int" where
  "passed_total u cs = sum_list (map snd (filter (\<lambda>c. fst c = u) cs))"

definition passed_magnitude :: "unit_method \<Rightarrow> (unit_method \<times> int) list \<Rightarrow> int" where
  "passed_magnitude u cs = sum_list (map (\<lambda>c. \<bar>snd c\<bar>) (filter (\<lambda>c. fst c = u) cs))"

definition within_safe_range :: "(unit_method \<times> int) list \<Rightarrow> bool" where
  "within_safe_range cs =
     list_all (\<lambda>u. passed_magnitude u cs \<le> 2 ^ 53) [Years, Months, Days, Hours, Minutes, Seconds]"

fun field_of :: "unit_method \<Rightarrow> DeltaBuilder \<Rightarrow> number" where
  "field_of Years d = p_years d"
| "field_of Months d = p_months d"
| "field_of Days d = p_days d"
| "field_of Hours d = p_hours d"
| "field_of Minutes d = p_minutes d"
| "field_of Seconds d = p_seconds d"

section \<open>index.js: exceptions, plain data and the external primitives\<close>

text \<open>
  Plain data: what \<^verbatim>\<open>JSON.parse\<close> and the msgpack \<^verbatim>\<open>decode\<close> return, what
  \<^verbatim>\<open>JSON.stringify\<close> writes, and what a handler receives as arguments (\<open>DBin\<close> is a
  \<^verbatim>\<open>Uint8Array\<close>).

  The exceptions the modelled code can raise: the built-in error classes, \<^verbatim>\<open>new Error(msg)\<close>,
  the SDK's \<^verbatim>\<open>APIError(type, reasons)\<close>, and whatever a user's handler throws.
\<close>

datatype data = DNull | DBool bool | DNum real | DStr string | DBin "byte list"
  | DArr "data list" | DObj "(string \<times> data) list"

datatype exn = TypeError | SyntaxError | OperationError | URIError | Error string
  | APIError "data option" "data list" | Thrown string

text \<open>
  Library functions the SDK calls and does not implement are parameters of the model:
  \<^item> \<open>verifyAsync signature message publicKey\<close>: \<^verbatim>\<open>@noble/ed25519\<close>; \<open>None\<close> when it throws;
  \<^item> \<open>JSON_parse\<close>: \<open>None\<close> is the \<^verbatim>\<open>SyntaxError\<close>;
  \<^item> \<open>encode\<close>, \<open>decode\<close>: \<^verbatim>\<open>@msgpack/msgpack\<close>; \<open>decode\<close> is \<open>None\<close> when it throws;
  \<^item> \<open>aes_gcm_encrypt key iv data\<close>, \<open>aes_gcm_decrypt key iv data\<close>:
    \<^verbatim>\<open>crypto.subtle.encrypt/decrypt({name: "AES-GCM", iv}, key, data)\<close>; \<open>None\<close> when the
    promise rejects;
  \<^item> \<open>toBase64Polyfill\<close>: the base64 encoder \<^verbatim>\<open>findBestB64Strat\<close> picks;
    \<open>fromBase64\<close>: the decoding \<^verbatim>\<open>fetch("data:application/octet-stream;base64," + str)\<close>
    performs, \<open>None\<close> when the fetch rejects;
  \<^item> \<open>importKey\<close>: \<^verbatim>\<open>crypto.subtle.digest("SHA-256", ...)\<close> followed by
    \<^verbatim>\<open>crypto.subtle.importKey("raw", ...)\<close>.
  The type \<open>'k\<close> is that of an imported key.
\<close>

record 'k env =
  verifyAsync :: "byte list \<Rightarrow> byte list \<Rightarrow> byte list \<Rightarrow> bool option"
  JSON_parse :: "string \<Rightarrow> data option"
  encode :: "data list \<Rightarrow> byte list"
  decode :: "byte list \<Rightarrow> data option"
  aes_gcm_encrypt :: "'k \<Rightarrow> byte list \<Rightarrow> byte list \<Rightarrow> byte list option"
  aes_gcm_decrypt :: "'k \<Rightarrow> byte list \<Rightarrow> byte list \<Rightarrow> byte list option"
  toBase64Polyfill :: "byte list \<Rightarrow> string"
  fromBase64 :: "string \<Rightarrow> byte list option"
  importKey :: "string \<Rightarrow> 'k"

section \<open>index.js: string helpers\<close>

text \<open>
  \<^verbatim>\<open>String.prototype.split(sep)\<close> for a one-character separator: \<^verbatim>\<open>"".split(":")\<close> is
  \<^verbatim>\<open>[""]\<close>, \<^verbatim>\<open>"a:b:c".split(":")\<close> is \<^verbatim>\<open>["a", "b", "c"]\<close>.  With a limit,
  \<^verbatim>\<open>split(sep, 2)\<close> keeps the first two pieces.
\<close>

fun split_on :: "char \<Rightarrow> string \<Rightarrow> string list" where
  "split_on sep [] = [[]]"
| "split_on sep (c # cs) =
     (if c = sep then [] # split_on sep cs
      else (case split_on sep cs of [] \<Rightarrow> [[c]] | p # ps \<Rightarrow> (c # p) # ps))"

text \<open>\<^verbatim>\<open>Array.prototype.join(".")\<close>.\<close>

fun join_dot :: "string list \<Rightarrow> string" where
  "join_dot [] = []"
| "join_dot [k] = k"
| "join_dot (k # ks) = k @ ''.'' @ join_dot ks"

text \<open>
  The characters (code points) of a string in its UTF-8 representation: a lead byte with
  the continuation bytes \<open>10xxxxxx\<close> that follow it.
\<close>

definition is_continuation :: "char \<Rightarrow> bool" where
  "is_continuation c = (128 \<le> (of_char c :: nat) \<and> (of_char c :: nat) < 192)"

function characters :: "string \<Rightarrow> string list" where
  "characters [] = []"
| "characters (c # cs) =
     (c # takeWhile is_continuation cs) # characters (dropWhile is_continuation cs)"
  by pat_completeness auto
termination
  by (relation "measure length") (auto simp: length_dropWhile_le le_imp_less_Suc)

text \<open>
  A character that is an unpaired surrogate (a code point from \<open>D800\<close> to \<open>DFFF\<close>), and
  \<^verbatim>\<open>String.prototype.isWellFormed\<close>: the string holds none.
\<close>

definition is_surrogate :: "string \<Rightarrow> bool" where
  "is_surrogate ch =
     (case ch of
        c # d # rest \<Rightarrow> (of_char c :: nat) = 237 \<and> 160 \<le> (of_char d :: nat)
      | _ \<Rightarrow> False)"

definition is_well_formed :: "string \<Rightarrow> bool" where
  "is_well_formed s = list_all (\<lambda>ch. \<not> is_surrogate ch) (characters s)"

text \<open>
  \<^verbatim>\<open>parseInt(string, radix)\<close> for radix 10 and 16 (ECMA-262, 19.2.5): leading white space
  is skipped, then an optional sign, then for radix 16 an optional \<^verbatim>\<open>0x\<close>; the longest
  prefix of digits is read; no digit gives \<^verbatim>\<open>NaN\<close>, here \<open>None\<close>.  The white space is
  the \<^verbatim>\<open>WhiteSpace\<close> and \<^verbatim>\<open>LineTerminator\<close> code points, in UTF-8.
\<close>

definition white_space :: "string list" where
  "white_space =
     [[CHR 0x09], [CHR 0x0A], [CHR 0x0B], [CHR 0x0C], [CHR 0x0D], [CHR 0x20],
      [CHR 0xC2, CHR 0xA0], [CHR 0xE1, CHR 0x9A, CHR 0x80],
      [CHR 0xE2, CHR 0x80, CHR 0x80], [CHR 0xE2, CHR 0x80, CHR 0x81],
      [CHR 0xE2, CHR 0x80, CHR 0x82], [CHR 0xE2, CHR 0x80, CHR 0x83],
      [CHR 0xE2, CHR 0x80, CHR 0x84], [CHR 0xE2, CHR 0x80, CHR 0x85],
      [CHR 0xE2, CHR 0x80, CHR 0x86], [CHR 0xE2, CHR 0x80, CHR 0x87],
      [CHR 0xE2, CHR 0x80, CHR 0x88], [CHR 0xE2, CHR 0x80, CHR 0x89],
      [CHR 0xE2, CHR 0x80, CHR 0x8A], [CHR 0xE2, CHR 0x80, CHR 0xA8],
      [CHR 0xE2, CHR 0x80, CHR 0xA9], [CHR 0xE2, CHR 0x80, CHR 0xAF],
      [CHR 0xE2, CHR 0x81, CHR 0x9F], [CHR 0xE3, CHR 0x80, CHR 0x80],
      [CHR 0xEF, CHR 0xBB, CHR 0xBF]]"

definition trim_start :: "string \<Rightarrow> string" where
  "trim_start s = concat (dropWhile (\<lambda>c. c \<in> set white_space) (characters s))"

definition digit_of :: "char \<Rightarrow> nat" where
  "digit_of c =
     (let n = (of_char c :: nat)
      in if 48 \<le> n \<and> n \<le> 57 then n - 48
         else if 97 \<le> n \<and> n \<le> 122 then n - 87
         else if 65 \<le> n \<and> n \<le> 90 then n - 55
         else 36)"

definition parseInt :: "string \<Rightarrow> nat \<Rightarrow> int option" where
  "parseInt string radix =
     (let s1 = trim_start string;
          negative = (take 1 s1 = ''-'');
          s2 = (if take 1 s1 = ''-'' \<or> take 1 s1 = ''+'' then drop 1 s1 else s1);
          s3 = (if radix = 16 \<and> (take 2 s2 = ''0x'' \<or> take 2 s2 = ''0X'') then drop 2 s2 else s2);
          z = takeWhile (\<lambda>c. digit_of c < radix) s3
      in if z = [] then None
         else Some ((if negative then - 1 else 1) *
                    int (foldl (\<lambda>a c. a * radix + digit_of c) 0 z)))"

text \<open>
  \<^verbatim>\<open>
  function fromHex(hex) {
      const bytes = new Uint8Array(hex.match(/.{1,2}/g).map((byte) => parseInt(byte, 16)));
      return bytes;
  }
  \<close>
  \<open>hex\<close> is \<open>None\<close> when the caller passes \<^verbatim>\<open>null\<close>: \<^verbatim>\<open>null.match\<close> is a
  \<^verbatim>\<open>TypeError\<close>.  \<^verbatim>\<open>match\<close> returns \<^verbatim>\<open>null\<close> when nothing matches, and
  \<^verbatim>\<open>null.map\<close> is a \<^verbatim>\<open>TypeError\<close> too.  The pattern takes the characters two at a
  time and skips line terminators (a character beyond U+FFFF counts as one here, as two
  in UTF-16).  In a \<^verbatim>\<open>Uint8Array\<close>, \<^verbatim>\<open>NaN\<close> is stored as 0 and a number modulo 256.
\<close>

definition line_terminator :: "string \<Rightarrow> bool" where
  "line_terminator c =
     (c = [CHR 0x0A] \<or> c = [CHR 0x0D] \<or> c = [CHR 0xE2, CHR 0x80, CHR 0xA8]
      \<or> c = [CHR 0xE2, CHR 0x80, CHR 0xA9])"

fun match_pairs :: "string list \<Rightarrow> string list" where
  "match_pairs [] = []"
| "match_pairs [a] = (if line_terminator a then [] else [a])"
| "match_pairs (a # b # r) =
     (if line_terminator a then match_pairs (b # r)
      else if line_terminator b then a # match_pairs r
      else (a @ b) # match_pairs r)"

definition fromHex :: "string option \<Rightarrow> exn + byte list" where
  "fromHex hex =
     (case hex of
        None \<Rightarrow> Inl TypeError
      | Some s \<Rightarrow>
          (case match_pairs (characters s) of
             [] \<Rightarrow> Inl TypeError
           | ms \<Rightarrow> Inr (map (\<lambda>byte. case parseInt byte 16 of None \<Rightarrow> 0 | Some n \<Rightarrow> word_of_int n) ms)))"

text \<open>
  \<^verbatim>\<open>new TextEncoder().encode(message)\<close>: the UTF-8 bytes of the string, with the
  replacement character \<open>U+FFFD\<close> for each unpaired surrogate.
\<close>

definition TextEncoder_encode :: "string \<Rightarrow> byte list" where
  "TextEncoder_encode s =
     map (\<lambda>c. of_nat (of_char c))
       (concat (map (\<lambda>ch. if is_surrogate ch then [CHR 0xEF, CHR 0xBF, CHR 0xBD] else ch)
                  (characters s)))"

section \<open>index.js: the payload cipher\<close>

text \<open>
  Property access \<^verbatim>\<open>v[key]\<close> on parsed data, as in the destructuring
  \<^verbatim>\<open>const { type, encrypted_data } = JSON.parse(body)\<close>: \<open>None\<close> is \<^verbatim>\<open>undefined\<close>.
  Destructuring \<^verbatim>\<open>null\<close> itself is a \<^verbatim>\<open>TypeError\<close>, handled by the caller.
\<close>

fun get_property :: "data \<Rightarrow> string \<Rightarrow> data option" where
  "get_property (DObj ps) key = map_of ps key"
| "get_property v key = None"

text \<open>
  A value on which a string method is called (\<^verbatim>\<open>data.split\<close>, \<^verbatim>\<open>type.split\<close>): the
  string, or \<open>None\<close> when the call is a \<^verbatim>\<open>TypeError\<close> (\<^verbatim>\<open>undefined\<close>, \<^verbatim>\<open>null\<close> and
  every value without that method).
\<close>

fun string_value :: "data option \<Rightarrow> string option" where
  "string_value (Some (DStr s)) = Some s"
| "string_value v = None"

text \<open>
  \<^verbatim>\<open>
  async function decrypt(key, data) {
      const [iv, encrypted] = data.split(":", 2);
      if (!iv || !encrypted) {
          throw new Error("Invalid encrypted data.");
      }
      const decrypted = await crypto.subtle.decrypt(
          { name: "AES-GCM", iv: await fromBase64(iv) }, key, await fromBase64(encrypted));
      return new Uint8Array(decrypted);
  }
  \<close>
  \<open>data\<close> is what the caller read from the request: \<open>None\<close> for \<^verbatim>\<open>undefined\<close>; on
  anything but a string \<^verbatim>\<open>data.split\<close> is a \<^verbatim>\<open>TypeError\<close>.  A missing second piece
  (\<^verbatim>\<open>undefined\<close>) and an empty piece are both falsy.
\<close>

definition decrypt :: "'k env \<Rightarrow> 'k \<Rightarrow> data option \<Rightarrow> exn + byte list" where
  "decrypt env key data =
     (case string_value data of
        None \<Rightarrow> Inl TypeError
      | Some s \<Rightarrow>
          (case take 2 (split_on CHR '':'' s) of
             [iv, encrypted] \<Rightarrow>
               if iv = [] \<or> encrypted = [] then Inl (Error ''Invalid encrypted data.'')
               else (case fromBase64 env iv of
                       None \<Rightarrow> Inl TypeError
                     | Some iv_bytes \<Rightarrow>
                         (case fromBase64 env encrypted of
                            None \<Rightarrow> Inl TypeError
                          | Some encrypted_bytes \<Rightarrow>
                              (case aes_gcm_decrypt env key iv_bytes encrypted_bytes of
                                 None \<Rightarrow> Inl OperationError
                               | Some decrypted \<Rightarrow> Inr decrypted)))
           | _ \<Rightarrow> Inl (Error ''Invalid encrypted data.'')))"

text \<open>
  \<^verbatim>\<open>
  async function encrypt(key, data) {
      const iv = fixedIv || crypto.getRandomValues(new Uint8Array(12));
      const encrypted = await crypto.subtle.encrypt({ name: "AES-GCM", iv }, key, data);
      return `${toBase64Polyfill(iv)}:${toBase64Polyfill(new Uint8Array(encrypted))}`;
  }
  \<close>
  \<open>fixedIv\<close> is the module variable of \<^verbatim>\<open>typed.ts\<close> (\<^verbatim>\<open>null\<close> unless \<^verbatim>\<open>poisonIv\<close> set
  it; any \<^verbatim>\<open>Uint8Array\<close> is truthy); \<open>random\<close> is the array of 12 bytes that
  \<^verbatim>\<open>crypto.getRandomValues\<close> returns.
\<close>

definition encrypt :: "'k env \<Rightarrow> byte list option \<Rightarrow> byte list \<Rightarrow> 'k \<Rightarrow> byte list \<Rightarrow> exn + string" where
  "encrypt env fixedIv random key data =
     (let iv = (case fixedIv of Some v \<Rightarrow> v | None \<Rightarrow> random)
      in case aes_gcm_encrypt env key iv data of
           None \<Rightarrow> Inl OperationError
         | Some encrypted \<Rightarrow>
             Inr (toBase64Polyfill env iv @ '':'' @ toBase64Polyfill env encrypted))"

section \<open>index.js: the handler tree and the router\<close>

text \<open>
  A handler function of the application: its name, its declared number of parameters
  (\<^verbatim>\<open>fn.length\<close>) and what a call does with the arguments (\<open>None\<close>: it returns,
  \<open>Some e\<close>: it throws \<open>e\<close> or its promise rejects with \<open>e\<close>).

  The tree passed to \<^verbatim>\<open>createRouter\<close>: a function, an object of entries (own enumerable
  properties in \<^verbatim>\<open>Object.entries\<close> order), or the wrapper object
  \<^verbatim>\<open>{ fnOrFns, [internalSym]: [endpoint, fnOrFns] }\<close> that \<^verbatim>\<open>customEndpoint\<close> returns.
  Properties inherited from \<^verbatim>\<open>Object.prototype\<close> and \<^verbatim>\<open>Function.prototype\<close> are not
  modelled.
\<close>

record handler =
  hname :: string
  arity :: nat
  run :: "data list \<Rightarrow> exn option"

datatype node = Fn handler | Wrapped string node | Obj "(string \<times> node) list"

definition customEndpoint :: "string \<Rightarrow> node \<Rightarrow> node" where
  "customEndpoint endpoint fnOrFns = Wrapped endpoint fnOrFns"

text \<open>
  The router object: \<open>Call jobType endpoint\<close> is the closure
  \<^verbatim>\<open>apiHandlerBuilder(apiKey, encryptionKey, jobType, endpoint)\<close>, \<open>Routes\<close> a nested object.
\<close>

datatype route = Call string string | Routes "(string \<times> route) list"

text \<open>
  \<^verbatim>\<open>
  function _write(apiKey, encryptionKey, endpointId, obj, fns, keyStack) {
      for (const [key, value] of Object.entries(fns)) {
          if (typeof value === "function") {
              let k = keyStack.join(".");
              if (k === "") { k = key; } else { k += `.${key}`; }
              obj[key] = apiHandlerBuilder(apiKey, encryptionKey, k, endpointId);
          } else if (typeof value === "object" && value[internalSym]) {
              const [customEndpointId, customFns] = value[internalSym];
              _write(apiKey, encryptionKey, customEndpointId, obj, { [key]: customFns }, keyStack);
          } else {
              const nextObj = {};
              keyStack.push(key);
              _write(apiKey, encryptionKey, endpointId, nextObj, value, keyStack);
              obj[key] = nextObj;
          }
      }
      // Pop the last key off the stack.
      keyStack.pop();
  }
  \<close>
  \<open>obj\<close> and \<open>keyStack\<close> are mutated in place and shared with the caller, so the model
  returns both.  \<open>write_loop\<close> is the \<^verbatim>\<open>for\<close> loop over the remaining entries;
  \<open>u_write\<close> is \<^verbatim>\<open>_write\<close>: the loop, then \<^verbatim>\<open>keyStack.pop()\<close> (which leaves an empty
  array empty).  \<^verbatim>\<open>obj[key] = v\<close> is \<open>AList.update key v obj\<close>.
\<close>

fun u_write :: "string \<Rightarrow> (string \<times> route) list \<Rightarrow> (string \<times> node) list \<Rightarrow> string list
    \<Rightarrow> (string \<times> route) list \<times> string list"
and write_loop :: "string \<Rightarrow> (string \<times> route) list \<Rightarrow> (string \<times> node) list \<Rightarrow> string list
    \<Rightarrow> (string \<times> route) list \<times> string list"
where
  "u_write endpointId obj fns keyStack =
     (case write_loop endpointId obj fns keyStack of (obj', ks) \<Rightarrow> (obj', butlast ks))"
| "write_loop endpointId obj [] keyStack = (obj, keyStack)"
| "write_loop endpointId obj ((key, Fn h) # rest) keyStack =
     (let k = join_dot keyStack;
          k' = (if k = [] then key else k @ ''.'' @ key)
      in write_loop endpointId (AList.update key (Call k' endpointId) obj) rest keyStack)"
| "write_loop endpointId obj ((key, Wrapped customEndpointId customFns) # rest) keyStack =
     (case u_write customEndpointId obj [(key, customFns)] keyStack of
        (obj', ks) \<Rightarrow> write_loop endpointId obj' rest ks)"
| "write_loop endpointId obj ((key, Obj val) # rest) keyStack =
     (case u_write endpointId [] val (keyStack @ [key]) of
        (nextObj, ks) \<Rightarrow>
          write_loop endpointId (AList.update key (Routes nextObj) obj) rest ks)"

text \<open>
  \<^verbatim>\<open>
  export function createRouter(apiKey, encryptionKey, publicKey, defaultEndpointId, fns) {
      encryptionKey = crypto.subtle.digest("SHA-256", ...).then((key) => crypto.subtle.importKey(...));
      const obj = {};
      _write(apiKey, encryptionKey, defaultEndpointId, obj, fns, []);
      obj[internalSym] = [fns, encryptionKey, publicKey];
      return obj;
  }
  \<close>
  The router is \<open>obj\<close> (\<open>routes\<close>) with the three values stored under \<^verbatim>\<open>internalSym\<close>; the
  API key, which every closure captures, is kept beside them.
\<close>

record 'k router =
  routes :: "(string \<times> route) list"
  fns :: "(string \<times> node) list"
  encryptionKey :: 'k
  publicKey :: string
  apiKey :: string

definition createRouter :: "'k env \<Rightarrow> string \<Rightarrow> string \<Rightarrow> string \<Rightarrow> string \<Rightarrow> (string \<times> node) list
    \<Rightarrow> 'k router" where
  "createRouter env api_key encryption_key public_key defaultEndpointId handler_fns =
     \<lparr>routes = fst (u_write defaultEndpointId [] handler_fns []),
      fns = handler_fns,
      encryptionKey = importKey env encryption_key,
      publicKey = public_key,
      apiKey = api_key\<rparr>"

text \<open>
  What the specification asks of the router, in its own words: the job type of a leaf is
  the dot-joined sequence of the keys from the root to the leaf, wrappers ignored, and
  its endpoint is that of the innermost enclosing wrapper, or the default.
\<close>

fun spec_route :: "string list \<Rightarrow> string \<Rightarrow> node \<Rightarrow> route"
and spec_routes :: "string list \<Rightarrow> string \<Rightarrow> (string \<times> node) list \<Rightarrow> (string \<times> route) list"
where
  "spec_route keys endpoint (Fn h) = Call (join_dot keys) endpoint"
| "spec_route keys endpoint (Wrapped e inner) = spec_route keys e inner"
| "spec_route keys endpoint (Obj entries) = Routes (spec_routes keys endpoint entries)"
| "spec_routes keys endpoint [] = []"
| "spec_routes keys endpoint ((key, v) # rest) =
     (key, spec_route (keys @ [key]) endpoint v) # spec_routes keys endpoint rest"

section \<open>index.js: the inbound request function\<close>

text \<open>
  \<^verbatim>\<open>
  async function verifySignature(publicKey, message, signature) {
      const publicKeyBytes = fromHex(publicKey);
      const messageBytes = new TextEncoder().encode(message);
      const signatureBytes = fromHex(signature);
      try {
          return await verifyAsync(signatureBytes, messageBytes, publicKeyBytes);
      } catch {
          return false;
      }
  }
  \<close>
  The two \<^verbatim>\<open>fromHex\<close> calls stand before the \<^verbatim>\<open>try\<close>.
\<close>

definition verifySignature :: "'k env \<Rightarrow> string \<Rightarrow> string \<Rightarrow> string option \<Rightarrow> exn + bool" where
  "verifySignature env public_key message signature =
     (case fromHex (Some public_key) of
        Inl e \<Rightarrow> Inl e
      | Inr publicKeyBytes \<Rightarrow>
          (case fromHex signature of
             Inl e \<Rightarrow> Inl e
           | Inr signatureBytes \<Rightarrow>
               (case verifyAsync env signatureBytes (TextEncoder_encode message) publicKeyBytes of
                  None \<Rightarrow> Inr False
                | Some valid \<Rightarrow> Inr valid)))"

text \<open>
  The request as the function reads it: the two headers (\<^verbatim>\<open>req.headers.get\<close> gives
  \<^verbatim>\<open>null\<close>, here \<open>None\<close>, for an absent header) and the body text.
\<close>

record request =
  signature_header :: "string option"
  timestamp_header :: "string option"
  body :: string

datatype response = Response nat "string option"

text \<open>A header value in string concatenation and in \<^verbatim>\<open>parseInt\<close>: \<^verbatim>\<open>null\<close> reads "null".\<close>

definition ToString :: "string option \<Rightarrow> string" where
  "ToString v = (case v of None \<Rightarrow> ''null'' | Some s \<Rightarrow> s)"

text \<open>
  \<^verbatim>\<open>
  const currentTime = Math.floor(Date.now() / 1000);
  const requestTime = parseInt(timestamp, 10);
  const timeDifference = currentTime - requestTime;
  const MAX_TIME_DIFF = 300; // 5 minutes
  // Return here if the request is too old.
  if (timeDifference > MAX_TIME_DIFF) { ... }
  \<close>
  \<open>now\<close> is \<^verbatim>\<open>Date.now()\<close>, in milliseconds.  With \<^verbatim>\<open>NaN\<close> for \<open>requestTime\<close> the
  comparison is false.
\<close>

definition MAX_TIME_DIFF :: int where
  "MAX_TIME_DIFF = 300"

definition too_old :: "int \<Rightarrow> string option \<Rightarrow> bool" where
  "too_old now timestamp =
     (let currentTime = now div 1000
      in case parseInt (ToString timestamp) 10 of
           None \<Rightarrow> False
         | Some requestTime \<Rightarrow> currentTime - requestTime > MAX_TIME_DIFF)"

text \<open>
  The spread \<^verbatim>\<open>fn(...data)\<close>: an array gives its elements, a string its characters, a
  \<^verbatim>\<open>Uint8Array\<close> its bytes; anything else is not iterable, a \<^verbatim>\<open>TypeError\<close>.
\<close>

fun spread :: "data \<Rightarrow> data list option" where
  "spread (DArr xs) = Some xs"
| "spread (DStr s) = Some (map DStr (characters s))"
| "spread (DBin bs) = Some (map (\<lambda>b. DNum (of_int (uint b))) bs)"
| "spread v = None"

text \<open>
  \<^verbatim>\<open>
  let fn = fns;
  for (const part of fnParts) {
      fn = fn[part];
      if (!fn) { return new Response("Endpoint Not Found", { status: 404 }); }
      if (typeof fn === "object" && fn[internalSym]) { fn = fn.fnOrFns; }
  }
  if (typeof fn !== "function") { return new Response("Endpoint Not Found", { status: 404 }); }
  \<close>
  \<open>get_node\<close> is \<^verbatim>\<open>fn[part]\<close> (\<open>None\<close>: \<^verbatim>\<open>undefined\<close>); \<open>find_fn\<close> is the loop and the
  test after it, \<open>None\<close> for the 404.
\<close>

fun get_node :: "node \<Rightarrow> string \<Rightarrow> node option" where
  "get_node (Obj ps) part = map_of ps part"
| "get_node (Wrapped e inner) part = (if part = ''fnOrFns'' then Some inner else None)"
| "get_node (Fn h) part = None"

fun find_fn :: "node \<Rightarrow> string list \<Rightarrow> handler option" where
  "find_fn fn [] = (case fn of Fn h \<Rightarrow> Some h | _ \<Rightarrow> None)"
| "find_fn fn (part # parts) =
     (case get_node fn part of
        None \<Rightarrow> None
      | Some (Wrapped e inner) \<Rightarrow> find_fn inner parts
      | Some v \<Rightarrow> find_fn v parts)"

text \<open>
  \<^verbatim>\<open>
  export function httpRoute(router) {
      const [fns, encryptionKey, publicKey] = router[internalSym];
      return async (req) => {
          const signature = req.headers.get("X-Signature-Ed25519");
          const timestamp = req.headers.get("X-Signature-Timestamp");
          const body = await req.text();
          const message = timestamp + body;
          ... (the timestamp check above)
              return new Response("Bad Request - too old", { status: 401 });
          if (!await verifySignature(publicKey, message, signature)) {
              return new Response("Bad Request - invalid signature", { status: 401 });
          }
          const { type, encrypted_data } = JSON.parse(body);
          let data;
          try {
              data = decode(await decrypt(await encryptionKey, encrypted_data));
          } catch {
              return new Response("Bad Request", { status: 400 });
          }
          const fnParts = type.split(".");
          ... (the walk above)
          await fn(...data);
          return new Response(null, { status: 204 });
      };
  }
  \<close>
  The result is the outcome of the request function (\<open>Inl\<close>: the returned promise
  rejects) and the handler calls it made, each with the handler's name and arguments.
\<close>

definition httpRoute :: "'k env \<Rightarrow> 'k router \<Rightarrow> int \<Rightarrow> request
    \<Rightarrow> (exn + response) \<times> (string \<times> data list) list" where
  "httpRoute env router now req =
     (let signature = signature_header req;
          timestamp = timestamp_header req;
          message = ToString timestamp @ body req
      in if too_old now timestamp
         then (Inr (Response 401 (Some ''Bad Request - too old'')), [])
         else
          (case verifySignature env (publicKey router) message signature of
             Inl e \<Rightarrow> (Inl e, [])
           | Inr False \<Rightarrow> (Inr (Response 401 (Some ''Bad Request - invalid signature'')), [])
           | Inr True \<Rightarrow>
               (case JSON_parse env (body req) of
                  None \<Rightarrow> (Inl SyntaxError, [])
                | Some parsed \<Rightarrow>
                    if parsed = DNull then (Inl TypeError, [])
                    else
                     (case decrypt env (encryptionKey router) (get_property parsed ''encrypted_data'') of
                        Inl e \<Rightarrow> (Inr (Response 400 (Some ''Bad Request'')), [])
                      | Inr decrypted \<Rightarrow>
                          (case decode env decrypted of
                             None \<Rightarrow> (Inr (Response 400 (Some ''Bad Request'')), [])
                           | Some data \<Rightarrow>
                               (case string_value (get_property parsed ''type'') of
                                  None \<Rightarrow> (Inl TypeError, [])
                                | Some type \<Rightarrow>
                                    (case find_fn (Obj (fns router)) (split_on CHR ''.'' type) of
                                       None \<Rightarrow> (Inr (Response 404 (Some ''Endpoint Not Found'')), [])
                                     | Some fn \<Rightarrow>
                                         (case spread data of
                                            None \<Rightarrow> (Inl TypeError, [])
                                          | Some args \<Rightarrow>
                                              (case run fn args of
                                                 Some e \<Rightarrow> (Inl e, [(hname fn, args)])
                                               | None \<Rightarrow>
                                                   (Inr (Response 204 None), [(hname fn, args)]))))))))))"

text \<open>
  The request got past the two \<^verbatim>\<open>401\<close> returns: its timestamp is not too old and
  \<^verbatim>\<open>verifySignature\<close> returned \<^verbatim>\<open>true\<close>.
\<close>

definition accepted :: "'k env \<Rightarrow> 'k router \<Rightarrow> int \<Rightarrow> request \<Rightarrow> bool" where
  "accepted env router now req =
     (\<not> too_old now (timestamp_header req) \<and>
      verifySignature env (publicKey router) (ToString (timestamp_header req) @ body req)
        (signature_header req) = Inr True)"

section \<open>The store\<close>

text \<open>
  Objects that the scheduling call shares with its caller live in a store: a list of
  objects, a reference \<open>VRef a\<close> being the index \<open>a\<close>.  A new object is appended, so its
  reference is fresh; nothing is ever removed.
\<close>

type_synonym store = "obj list"

definition alloc :: "obj \<Rightarrow> store \<Rightarrow> nat \<times> store" where
  "alloc ob h = (length h, h @ [ob])"

text \<open>\<^verbatim>\<open>o.key\<close>: a missing property reads \<^verbatim>\<open>undefined\<close>.\<close>

definition get_prop :: "store \<Rightarrow> nat \<Rightarrow> string \<Rightarrow> jsval" where
  "get_prop h a key =
     (if a < length h then (case map_of (h ! a) key of Some v \<Rightarrow> v | None \<Rightarrow> VUndefined)
      else VUndefined)"

text \<open>\<^verbatim>\<open>o.key = v\<close>.\<close>

definition set_prop :: "store \<Rightarrow> nat \<Rightarrow> string \<Rightarrow> jsval \<Rightarrow> store" where
  "set_prop h a key v = (if a < length h then h[a := AList.update key v (h ! a)] else h)"

text \<open>
  No object of the store holds a reference to an object that does not exist.
\<close>

definition closed :: "store \<Rightarrow> bool" where
  "closed h =
     list_all (\<lambda>ob. list_all (\<lambda>(k, v). case v of VRef a \<Rightarrow> a < length h | _ \<Rightarrow> True) ob) h"

text \<open>
  \<^verbatim>\<open>JSON.stringify(value)\<close>, up to the text: the data written.  A property whose value is
  \<^verbatim>\<open>undefined\<close> is left out.  A cyclic structure is a \<^verbatim>\<open>TypeError\<close>: each object
  entered uses one unit of \<open>fuel\<close>, and \<open>JSON_stringify\<close> gives one more than there are
  objects, which only a cycle exhausts.  \<open>None\<close> is the \<^verbatim>\<open>TypeError\<close>.
\<close>

fun to_data :: "nat \<Rightarrow> store \<Rightarrow> jsval \<Rightarrow> data option" where
  "to_data fuel h VUndefined = None"
| "to_data fuel h VNull = Some DNull"
| "to_data fuel h (VBool b) = Some (DBool b)"
| "to_data fuel h (VNum n) = Some (case n of Finite x \<Rightarrow> DNum x | _ \<Rightarrow> DNull)"
| "to_data fuel h (VStr s) = Some (DStr s)"
| "to_data 0 h (VRef a) = None"
| "to_data (Suc fuel) h (VRef a) =
     (if a < length h
      then map_option DObj
             (those (map (\<lambda>(k, v). map_option (Pair k) (to_data fuel h v))
                      (filter (\<lambda>(k, v). v \<noteq> VUndefined) (h ! a))))
      else None)"

definition JSON_stringify :: "store \<Rightarrow> jsval \<Rightarrow> data option" where
  "JSON_stringify h v = to_data (Suc (length h)) h v"

section \<open>properties.ts: the job properties\<close>

text \<open>
  \<^verbatim>\<open>
  export class CreateJobProperties {
      #customId: string | null = null;
      constructor(private startFrom: StartFrom, private runEvery: DeltaBody | null) {}
      customId(customId: string) { this.#customId = customId; return this; }
      toObject() {
          return { id: this.#customId,
                   data: { start_from: this.startFrom, run_every: this.runEvery } };
      }
  }
  \<close>
  An instance is an object of the store with the fields \<open>#customId\<close>, \<open>startFrom\<close> and
  \<open>runEvery\<close>; \<open>this\<close> is its reference.  \<open>toObject\<close> allocates the inner and the outer
  object literal and returns the reference of the outer one.
\<close>

definition new_CreateJobProperties :: "store \<Rightarrow> jsval \<Rightarrow> jsval \<Rightarrow> nat \<times> store" where
  "new_CreateJobProperties h startFrom runEvery =
     alloc [(''#customId'', VNull), (''startFrom'', startFrom), (''runEvery'', runEvery)] h"

definition customId :: "store \<Rightarrow> nat \<Rightarrow> string \<Rightarrow> nat \<times> store" where
  "customId h this custom_id = (this, set_prop h this ''#customId'' (VStr custom_id))"

definition CreateJobProperties_toObject :: "store \<Rightarrow> nat \<Rightarrow> nat \<times> store" where
  "CreateJobProperties_toObject h this =
     (case alloc [(''start_from'', get_prop h this ''startFrom''),
                  (''run_every'', get_prop h this ''runEvery'')] h of
        (inner, h1) \<Rightarrow>
          alloc [(''id'', get_prop h this ''#customId''), (''data'', VRef inner)] h1)"

text \<open>
  \<^verbatim>\<open>
  export function fromDatetime(datetime: string | Date, runEvery?: (c: DeltaBuilder) => void) {
      let dtStr = (datetime instanceof Date ? datetime : new Date(datetime)).toISOString();
      let runEveryBody: DeltaBody | null = null;
      if (runEvery) {
          const builder = new DeltaBuilder();
          runEvery(builder);
          runEveryBody = builder.toObject();
      }
      const startFrom = { type: "datetime" as const, datetime: dtStr };
      return new CreateJobProperties(startFrom, runEveryBody);
  }
  \<close>
  \<open>dtStr\<close> is the result of \<^verbatim>\<open>toISOString\<close>, \<open>None\<close> for its \<^verbatim>\<open>RangeError\<close> on an
  invalid date.  The callback is the update it performs on the builder.
\<close>

definition fromDatetime :: "store \<Rightarrow> string option \<Rightarrow> (DeltaBuilder \<Rightarrow> DeltaBuilder) option
    \<Rightarrow> (exn + nat) \<times> store" where
  "fromDatetime h dtStr runEvery =
     (case dtStr of
        None \<Rightarrow> (Inl (Error ''Invalid time value''), h)
      | Some dt \<Rightarrow>
          (case (case runEvery of
                   None \<Rightarrow> (VNull, h)
                 | Some cb \<Rightarrow>
                     (case alloc (DeltaBuilder_toObject (cb new_DeltaBuilder)) h of
                        (a, h1) \<Rightarrow> (VRef a, h1))) of
             (runEveryBody, h1) \<Rightarrow>
               (case alloc [(''type'', VStr ''datetime''), (''datetime'', VStr dt)] h1 of
                  (startFrom, h2) \<Rightarrow>
                    (case new_CreateJobProperties h2 (VRef startFrom) runEveryBody of
                       (this, h3) \<Rightarrow> (Inr this, h3)))))"

text \<open>
  \<^verbatim>\<open>
  export function fromNow(delta?: (c: DeltaBuilderWithRecurringFlag) => void) {
      let recurring = false;
      const builder = new DeltaBuilderWithRecurringFlag(() => { recurring = true; });
      delta?.(builder);
      const deltaBody = builder.toObject();
      const startFrom = { type: "delta" as const, ...deltaBody };
      const runEvery = recurring ? deltaBody : null;
      return new CreateJobProperties(startFrom, runEvery);
  }
  \<close>
  The builder with its flag is a pair; \<open>recurring\<close> is the extra method.
\<close>

definition recurring :: "DeltaBuilder \<times> bool \<Rightarrow> DeltaBuilder \<times> bool" where
  "recurring this = (fst this, True)"

definition fromNow :: "store \<Rightarrow> (DeltaBuilder \<times> bool \<Rightarrow> DeltaBuilder \<times> bool) option \<Rightarrow> nat \<times> store" where
  "fromNow h delta =
     (case (case delta of None \<Rightarrow> (new_DeltaBuilder, False) | Some cb \<Rightarrow> cb (new_DeltaBuilder, False)) of
        (builder, is_recurring) \<Rightarrow>
          (case alloc (DeltaBuilder_toObject builder) h of
             (deltaBody, h1) \<Rightarrow>
               (case alloc ((''type'', VStr ''delta'') # DeltaBuilder_toObject builder) h1 of
                  (startFrom, h2) \<Rightarrow>
                    new_CreateJobProperties h2 (VRef startFrom)
                      (if is_recurring then VRef deltaBody else VNull))))"

section \<open>index.js: the outbound calls\<close>

text \<open>
  \<^verbatim>\<open>encodeURIComponent\<close>: a string that holds an unpaired surrogate is a \<^verbatim>\<open>URIError\<close>.
  Otherwise the unreserved characters \<^verbatim>\<open>A-Z a-z 0-9 - _ . ! ~ * ' ( )\<close> stand for
  themselves and every other byte of the UTF-8 encoding is written \<^verbatim>\<open>%XX\<close> (\<open>uri_escape\<close>).
\<close>

definition uri_unreserved :: "char \<Rightarrow> bool" where
  "uri_unreserved c =
     (let n = (of_char c :: nat)
      in (65 \<le> n \<and> n \<le> 90) \<or> (97 \<le> n \<and> n \<le> 122) \<or> (48 \<le> n \<and> n \<le> 57)
         \<or> c \<in> set ''-_.!~*'()'')"

definition hex_digit :: "nat \<Rightarrow> char" where
  "hex_digit n = ''0123456789ABCDEF'' ! n"

definition uri_escape :: "string \<Rightarrow> string" where
  "uri_escape s =
     concat (map (\<lambda>c. if uri_unreserved c then [c]
                       else [CHR ''%'', hex_digit ((of_char c :: nat) div 16),
                             hex_digit ((of_char c :: nat) mod 16)]) s)"

definition encodeURIComponent :: "string \<Rightarrow> exn + string" where
  "encodeURIComponent s = (if is_well_formed s then Inr (uri_escape s) else Inl URIError)"

text \<open>The decimal text of a status code, for \<^verbatim>\<open>`HTTP error: ${res.status}`\<close>.\<close>

fun decimal :: "nat \<Rightarrow> string" where
  "decimal n = (if n < 10 then [hex_digit n] else decimal (n div 10) @ [hex_digit (n mod 10)])"

text \<open>
  The remote service: \<^verbatim>\<open>fetch\<close> maps a request to a response, or rejects (\<open>Inl\<close>).  Of
  the response the code reads \<^verbatim>\<open>res.ok\<close> (status 200 to 299), \<^verbatim>\<open>res.status\<close>, the
  header \<^verbatim>\<open>X-Is-Application-Error\<close> and \<^verbatim>\<open>res.json()\<close> (\<open>None\<close>: it rejects).
\<close>

record http_request =
  url :: string
  http_method :: string
  headers :: "(string \<times> string) list"
  request_body :: "data option"

record http_response =
  status :: nat
  is_application_error :: "string option"
  json :: "data option"

type_synonym network = "http_request \<Rightarrow> exn + http_response"

text \<open>
  \<^verbatim>\<open>
  async function errorHandledFetch(url, apiKey, method, body) {
      const headers = body ? { Authorization: `Bearer ${apiKey}`, "Content-Type": "application/json" }
                           : { Authorization: `Bearer ${apiKey}` };
      const res = await fetch(url, { method, headers, body: body ? JSON.stringify(body) : undefined });
      if (!res.ok) {
          const isAppError = res.headers.get("X-Is-Application-Error");
          if (isAppError === "true") {
              const error = await res.json();
              throw new APIError(error.type, error.reasons);
          } else {
              throw new Error(`HTTP error: ${res.status}`);
          }
      }
      return res;
  }
  \<close>
  \<open>payload\<close> (the parameter \<^verbatim>\<open>body\<close>) is \<open>None\<close> for \<^verbatim>\<open>undefined\<close>, else the reference
  of an object.  The second
  component of the result lists the requests handed to \<^verbatim>\<open>fetch\<close>.  In \<^verbatim>\<open>APIError\<close>,
  \<^verbatim>\<open>reasons.join\<close> needs an array.
\<close>

definition errorHandledFetch :: "network \<Rightarrow> store \<Rightarrow> string \<Rightarrow> string \<Rightarrow> string \<Rightarrow> nat option
    \<Rightarrow> (exn + http_response) \<times> http_request list" where
  "errorHandledFetch fetch h target api_key meth payload =
     (case (case payload of
              None \<Rightarrow> Some ([(''Authorization'', ''Bearer '' @ api_key)], None)
            | Some b \<Rightarrow>
                (case JSON_stringify h (VRef b) of
                   None \<Rightarrow> None
                 | Some written \<Rightarrow>
                     Some ([(''Authorization'', ''Bearer '' @ api_key),
                            (''Content-Type'', ''application/json'')], Some written))) of
        None \<Rightarrow> (Inl TypeError, [])
      | Some (hdrs, sent) \<Rightarrow>
          (let rq = \<lparr>url = target, http_method = meth, headers = hdrs, request_body = sent\<rparr>
           in case fetch rq of
                Inl e \<Rightarrow> (Inl e, [rq])
              | Inr res \<Rightarrow>
                  if 200 \<le> status res \<and> status res \<le> 299 then (Inr res, [rq])
                  else if is_application_error res = Some ''true''
                  then (case json res of
                          None \<Rightarrow> (Inl SyntaxError, [rq])
                        | Some error \<Rightarrow>
                            if error = DNull then (Inl TypeError, [rq])
                            else (case get_property error ''reasons'' of
                                    Some (DArr reasons) \<Rightarrow>
                                      (Inl (APIError (get_property error ''type'') reasons), [rq])
                                  | _ \<Rightarrow> (Inl TypeError, [rq])))
                  else (Inl (Error (''HTTP error: '' @ decimal (status res))), [rq])))"

text \<open>
  \<^verbatim>\<open>
  export async function deleteJob(apiKey, jobId) {
      if (typeof jobId !== "string" || jobId === "") {
          throw new Error("Invalid job ID.");
      }
      const url = `https://clocktick.dev/api/v1/jobs/${encodeURIComponent(jobId)}`;
      await errorHandledFetch(url, apiKey, "DELETE");
  }
  \<close>
\<close>

definition deleteJob :: "network \<Rightarrow> string \<Rightarrow> jsval \<Rightarrow> (exn + unit) \<times> http_request list" where
  "deleteJob fetch api_key jobId =
     (case jobId of
        VStr s \<Rightarrow>
          if s = [] then (Inl (Error ''Invalid job ID.''), [])
          else (case encodeURIComponent s of
                  Inl e \<Rightarrow> (Inl e, [])
                | Inr encoded \<Rightarrow>
                    (case errorHandledFetch fetch []
                            (''https://clocktick.dev/api/v1/jobs/'' @ encoded)
                            api_key ''DELETE'' None of
                       (Inl e, sent) \<Rightarrow> (Inl e, sent)
                     | (Inr res, sent) \<Rightarrow> (Inr (), sent)))
      | _ \<Rightarrow> (Inl (Error ''Invalid job ID.''), []))"

text \<open>
  \<^verbatim>\<open>
  function apiHandlerBuilder(apiKey, encryptionKey, jobType, endpoint) {
      return async (props, ...args) => {
          const key = await encryptionKey;
          const obj = props.toObject();
          let url = "https://clocktick.dev/api/v1/jobs";
          if (obj.id !== null && obj.id !== "") {
              url += `/${encodeURIComponent(obj.id)}`;
          }
          const data = obj.data;
          data.endpoint_id = endpoint;
          data.encrypted_data = await encrypt(key, encode(args));
          data.job_type = jobType;
          return errorHandledFetch(url, apiKey, "POST", data).then((res) => res.json());
      };
  }
  \<close>
  The scheduling function takes the store and returns it; \<open>props\<close> is the reference of a
  \<^verbatim>\<open>CreateJobProperties\<close> instance.  \<open>job_url\<close> is the \<^verbatim>\<open>url\<close> computed from \<^verbatim>\<open>obj.id\<close>
  (a string or \<^verbatim>\<open>null\<close> by the class's types; other values are not modelled and leave
  the plain URL); it is computed, and \<^verbatim>\<open>encodeURIComponent\<close> may throw, before anything is
  written to \<^verbatim>\<open>obj.data\<close>.
\<close>

definition job_url :: "jsval \<Rightarrow> exn + string" where
  "job_url obj_id =
     (case obj_id of
        VStr s \<Rightarrow>
          if s = [] then Inr ''https://clocktick.dev/api/v1/jobs''
          else (case encodeURIComponent s of
                  Inl e \<Rightarrow> Inl e
                | Inr encoded \<Rightarrow> Inr (''https://clocktick.dev/api/v1/jobs'' @ ''/'' @ encoded))
      | _ \<Rightarrow> Inr ''https://clocktick.dev/api/v1/jobs'')"

definition apiHandlerBuilder :: "'k env \<Rightarrow> network \<Rightarrow> byte list option \<Rightarrow> string \<Rightarrow> 'k \<Rightarrow> string \<Rightarrow> string
    \<Rightarrow> store \<Rightarrow> byte list \<Rightarrow> nat \<Rightarrow> data list
    \<Rightarrow> ((exn + data) \<times> http_request list) \<times> store" where
  "apiHandlerBuilder env fetch fixedIv api_key key jobType endpoint h random props args =
     (case CreateJobProperties_toObject h props of
        (ob, h1) \<Rightarrow>
          (case job_url (get_prop h1 ob ''id'') of
             Inl e \<Rightarrow> ((Inl e, []), h1)
           | Inr target \<Rightarrow>
               (case get_prop h1 ob ''data'' of
                  VRef data \<Rightarrow>
                    (let h2 = set_prop h1 data ''endpoint_id'' (VStr endpoint)
                     in case encrypt env fixedIv random key (encode env args) of
                          Inl e \<Rightarrow> ((Inl e, []), h2)
                        | Inr encrypted \<Rightarrow>
                            (let h3 = set_prop h2 data ''encrypted_data'' (VStr encrypted);
                                 h4 = set_prop h3 data ''job_type'' (VStr jobType)
                             in case errorHandledFetch fetch h4 target api_key ''POST'' (Some data) of
                                  (Inl e, sent) \<Rightarrow> ((Inl e, sent), h4)
                                | (Inr res, sent) \<Rightarrow>
                                    (case json res of
                                       None \<Rightarrow> ((Inl SyntaxError, sent), h4)
                                     | Some v \<Rightarrow> ((Inr v, sent), h4))))
                | _ \<Rightarrow> ((Inl TypeError, []), h1))))"

text \<open>
  The body of the request parses, its payload decrypts and decodes, and the walk over the
  tree ends at the handler \<open>fn\<close>, to be called with \<open>args\<close>.
\<close>

definition resolves_to :: "'k env \<Rightarrow> 'k router \<Rightarrow> request \<Rightarrow> handler \<Rightarrow> data list \<Rightarrow> bool" where
  "resolves_to env router req fn args =
     (case JSON_parse env (body req) of
        None \<Rightarrow> False
      | Some parsed \<Rightarrow>
          parsed \<noteq> DNull \<and>
          (case decrypt env (encryptionKey router) (get_property parsed ''encrypted_data'') of
             Inl e \<Rightarrow> False
           | Inr decrypted \<Rightarrow>
               (case decode env decrypted of
                  None \<Rightarrow> False
                | Some decoded \<Rightarrow>
                    (case string_value (get_property parsed ''type'') of
                       None \<Rightarrow> False
                     | Some type \<Rightarrow>
                         find_fn (Obj (fns router)) (split_on CHR ''.'' type) = Some fn
                         \<and> spread decoded = Some args))))"

section \<open>An example environment\<close>

text \<open>
  Concrete stand-ins for the external primitives, so that the functions above can be
  evaluated on examples.  The base64 codec is the standard one (RFC 4648, with padding),
  which is what each encoder of \<^verbatim>\<open>findBestB64Strat\<close> computes; the unit test
  \<^verbatim>\<open>expect(toBase64(new Uint8Array([1, 2, 3]))).toBe("AQID")\<close> holds of it.
\<close>

definition base64_alphabet :: string where
  "base64_alphabet = ''ABCDEFGHIJKLMNOPQRSTUVWXYZabcdefghijklmnopqrstuvwxyz0123456789+/''"

definition sextet :: "nat \<Rightarrow> char" where
  "sextet n = base64_alphabet ! (n mod 64)"

fun base64_encode :: "byte list \<Rightarrow> string" where
  "base64_encode [] = []"
| "base64_encode [a] =
     (let n = unat a * 65536
      in [sextet (n div 262144), sextet (n div 4096), CHR ''='', CHR ''=''])"
| "base64_encode [a, b] =
     (let n = unat a * 65536 + unat b * 256
      in [sextet (n div 262144), sextet (n div 4096), sextet (n div 64), CHR ''=''])"
| "base64_encode (a # b # c # rest) =
     (let n = unat a * 65536 + unat b * 256 + unat c
      in [sextet (n div 262144), sextet (n div 4096), sextet (n div 64), sextet n])
     @ base64_encode rest"

definition sextet_of :: "char \<Rightarrow> nat option" where
  "sextet_of c =
     (let n = (of_char c :: nat)
      in if 65 \<le> n \<and> n \<le> 90 then Some (n - 65)
         else if 97 \<le> n \<and> n \<le> 122 then Some (n - 71)
         else if 48 \<le> n \<and> n \<le> 57 then Some (n + 4)
         else if c = CHR ''+'' then Some 62
         else if c = CHR ''/'' then Some 63
         else None)"

fun base64_decode :: "string \<Rightarrow> byte list option" where
  "base64_decode [] = Some []"
| "base64_decode [a, b, c, d] =
     (case (sextet_of a, sextet_of b) of
        (Some x, Some y) \<Rightarrow>
          if c = CHR ''='' \<and> d = CHR ''='' then Some [of_nat ((x * 64 + y) div 16 mod 256)]
          else (case sextet_of c of
                  None \<Rightarrow> None
                | Some z \<Rightarrow>
                    if d = CHR ''='' then
                      Some [of_nat ((x * 4096 + y * 64 + z) div 1024 mod 256),
                            of_nat ((x * 4096 + y * 64 + z) div 4 mod 256)]
                    else (case sextet_of d of
                            None \<Rightarrow> None
                          | Some w \<Rightarrow>
                              Some [of_nat ((x * 262144 + y * 4096 + z * 64 + w) div 65536 mod 256),
                                    of_nat ((x * 262144 + y * 4096 + z * 64 + w) div 256 mod 256),
                                    of_nat ((x * 262144 + y * 4096 + z * 64 + w) mod 256)]))
      | _ \<Rightarrow> None)"
| "base64_decode (a # b # c # d # rest) =
     (case (sextet_of a, sextet_of b, sextet_of c, sextet_of d) of
        (Some x, Some y, Some z, Some w) \<Rightarrow>
          map_option
            (\<lambda>bs. [of_nat ((x * 262144 + y * 4096 + z * 64 + w) div 65536 mod 256),
                   of_nat ((x * 262144 + y * 4096 + z * 64 + w) div 256 mod 256),
                   of_nat ((x * 262144 + y * 4096 + z * 64 + w) mod 256)] @ bs)
            (base64_decode rest)
      | _ \<Rightarrow> None)"
| "base64_decode _ = None"


text \<open>
  The other stand-ins are deliberately small: \<open>test_encode\<close> and \<open>test_decode\<close> are
  msgpack restricted to arrays of at most 15 integers between 0 and 127; the cipher
  appends a 16-byte tag to the plain text and checks it; a signature verifies when it
  equals the public key; \<open>test_JSON_parse\<close> knows three request bodies and rejects every
  other text.  The initialisation vector in the bodies is the one of the unit tests
  (bytes 1 to 12).
\<close>

definition test_encode :: "data list \<Rightarrow> byte list" where
  "test_encode args =
     of_nat (144 + length args) #
       map (\<lambda>a. case a of DNum n \<Rightarrow> word_of_int \<lfloor>n\<rfloor> | _ \<Rightarrow> 192) args"

definition test_decode :: "byte list \<Rightarrow> data option" where
  "test_decode bs =
     (case bs of
        [] \<Rightarrow> None
      | h # r \<Rightarrow>
          if 144 \<le> unat h \<and> unat h \<le> 159 \<and> length r = unat h - 144 \<and> list_all (\<lambda>b. unat b < 128) r
          then Some (DArr (map (\<lambda>b. DNum (of_int (uint b))) r))
          else None)"

definition body_test1 :: string where
  "body_test1 = ''{\"type\":\"test1\",\"encrypted_data\":\"AQIDBAUGBwgJCgsM:kQEAAAAAAAAAAAAAAAAAAAAA\"}''"

definition body_two_args :: string where
  "body_two_args = ''{\"type\":\"test1\",\"encrypted_data\":\"AQIDBAUGBwgJCgsM:kgECAAAAAAAAAAAAAAAAAAAAAA==\"}''"

definition body_failing :: string where
  "body_failing = ''{\"type\":\"failing\",\"encrypted_data\":\"AQIDBAUGBwgJCgsM:kQEAAAAAAAAAAAAAAAAAAAAA\"}''"

definition test_JSON_parse :: "string \<Rightarrow> data option" where
  "test_JSON_parse =
     map_of
       [(body_test1,
         DObj [(''type'', DStr ''test1''),
               (''encrypted_data'', DStr ''AQIDBAUGBwgJCgsM:kQEAAAAAAAAAAAAAAAAAAAAA'')]),
        (body_two_args,
         DObj [(''type'', DStr ''test1''),
               (''encrypted_data'', DStr ''AQIDBAUGBwgJCgsM:kgECAAAAAAAAAAAAAAAAAAAAAA=='')]),
        (body_failing,
         DObj [(''type'', DStr ''failing''),
               (''encrypted_data'', DStr ''AQIDBAUGBwgJCgsM:kQEAAAAAAAAAAAAAAAAAAAAA'')])]"

definition test_tag :: "byte list" where
  "test_tag = [0, 0, 0, 0, 0, 0, 0, 0, 0, 0, 0, 0, 0, 0, 0, 0]"

definition test_env :: "string env" where
  "test_env =
     \<lparr>verifyAsync = (\<lambda>signature message public_key. Some (signature = public_key)),
      JSON_parse = test_JSON_parse,
      encode = test_encode,
      decode = test_decode,
      aes_gcm_encrypt = (\<lambda>key iv plain. Some (plain @ test_tag)),
      aes_gcm_decrypt =
        (\<lambda>key iv sealed.
           if 16 \<le> length sealed \<and> drop (length sealed - 16) sealed = test_tag
           then Some (take (length sealed - 16) sealed) else None),
      toBase64Polyfill = base64_encode,
      fromBase64 = base64_decode,
      importKey = (\<lambda>secret. secret)\<rparr>"

definition returning :: handler where
  "returning = \<lparr>hname = ''returning'', arity = 1, run = (\<lambda>args. None)\<rparr>"

definition failing :: handler where
  "failing = \<lparr>hname = ''failing'', arity = 1, run = (\<lambda>args. Some (Thrown ''handler failed''))\<rparr>"

definition test_router :: "string router" where
  "test_router =
     createRouter test_env ''key'' ''encryption_key_here'' ''aa'' ''default_endpoint_id''
       [(''test1'', Fn returning),
        (''test2'', Obj [(''test3'', customEndpoint ''test3_endpoint'' (Obj [(''test4'', Fn returning)]))]),
        (''failing'', Fn failing)]"

text \<open>
  The network of the examples answers every request with \<^verbatim>\<open>200 {"id": "job_id"}\<close>, as
  the unit tests' patched \<^verbatim>\<open>fetch\<close> does; \<open>testIv\<close> is their pinned initialisation vector;
  \<open>test_store\<close> holds the job properties \<^verbatim>\<open>fromDatetime(new Date(0))\<close>, at reference 1.
\<close>

definition test_network :: network where
  "test_network =
     (\<lambda>rq. Inr \<lparr>status = 200, is_application_error = None,
                  json = Some (DObj [(''id'', DStr ''job_id'')])\<rparr>)"

definition testIv :: "byte list" where
  "testIv = [1, 2, 3, 4, 5, 6, 7, 8, 9, 10, 11, 12]"

definition test_store :: store where
  "test_store = snd (fromDatetime [] (Some ''1970-01-01T00:00:00.000Z'') None)"

section \<open>What the cipher needs of the external primitives\<close>

text \<open>
  The base64 codec handles the byte string \<open>bs\<close>: decoding its encoding gives it back,
  the encoding contains no colon, and it is empty only for the empty byte string.
\<close>

definition codec_ok :: "'k env \<Rightarrow> byte list \<Rightarrow> bool" where
  "codec_ok env bs =
     (fromBase64 env (toBase64Polyfill env bs) = Some bs
      \<and> CHR '':'' \<notin> set (toBase64Polyfill env bs)
      \<and> (toBase64Polyfill env bs = [] \<longleftrightarrow> bs = []))"


section \<open>Delta accumulation\<close>

text \<open>
  Integers of magnitude at most \<open>2^53\<close> are doubles, so adding two of them whose sum stays
  in that range is exact; and whatever the arguments, a field is the sum of the values
  passed to its unit's method, added from left to right in floating point.
\<close>

lemmas number_eval = to_double_def nearest_def exponent_def ilog2_def pow2_def
  round_half_even_def compute_bitlen

lemma round_half_even_int: "round_half_even (of_int j) = j"
  by (simp add: round_half_even_def)

lemma nearest_small:
  assumes "0 < k" and "k < 2 ^ 53"
  shows "nearest (of_int k) = of_int k"
proof -
  have "bitlen k \<le> 53" using assms by (simp add: bitlen_le_iff_power)
  moreover have "ilog2 (of_int k) = bitlen k - 1" using assms by (simp add: ilog2_def)
  ultimately have e: "exponent (of_int k) \<le> 0" by (simp add: exponent_def)
  define n where "n = nat (- exponent (of_int k))"
  have p: "pow2 (exponent (of_int k)) = 1 / 2 ^ n"
    using e by (cases "exponent (of_int k) = 0") (simp_all add: pow2_def n_def)
  have "real_of_int k / (1 / 2 ^ n) = of_int (k * 2 ^ n)" by simp
  then have "round_half_even (of_int k / pow2 (exponent (of_int k))) = k * 2 ^ n"
    unfolding p by (simp only: round_half_even_int)
  then show ?thesis by (simp add: nearest_def p)
qed

lemma nearest_int:
  assumes "0 < k" and "k \<le> 2 ^ 53"
  shows "nearest (of_int k) = of_int k"
proof (cases "k = 2 ^ 53")
  case True
  have "nearest 9007199254740992 = 9007199254740992" by (simp add: number_eval)
  with True show ?thesis by simp
next
  case False
  with assms have "k < 2 ^ 53" by simp
  with assms(1) show ?thesis by (rule nearest_small)
qed

lemma to_double_int:
  assumes "\<bar>k\<bar> \<le> 2 ^ 53"
  shows "to_double (of_int k) = Finite (of_int k)"
proof -
  have big: "(2::real) ^ 53 < 2 ^ 1024" by simp
  consider "k = 0" | "0 < k" | "k < 0" by linarith
  then show ?thesis
  proof cases
    case 1
    then show ?thesis by (simp add: to_double_def)
  next
    case 2
    with assms have n: "nearest (of_int k) = of_int k" by (intro nearest_int) simp_all
    have "real_of_int k \<le> 2 ^ 53" using assms 2
      by (metis abs_of_pos of_int_le_numeral_power_cancel_iff)
    with big have "\<not> 2 ^ 1024 \<le> real_of_int k" by linarith
    with 2 n show ?thesis by (simp add: to_double_def)
  next
    case 3
    with assms have n: "nearest (of_int (- k)) = of_int (- k)" by (intro nearest_int) simp_all
    have "real_of_int (- k) \<le> 2 ^ 53" using assms 3
      by (metis abs_of_neg of_int_le_numeral_power_cancel_iff)
    with big have "\<not> 2 ^ 1024 \<le> real_of_int (- k)" by linarith
    with 3 n show ?thesis by (simp add: to_double_def)
  qed
qed


lemma call_method_field:
  "field_of u (call_method d (w, n)) = (if w = u then number_add (field_of u d) n else field_of u d)"
  by (cases u; cases w)
    (simp_all add: years_def months_def days_def hours_def minutes_def seconds_def)

lemma foldl_call_method_field:
  "field_of u (foldl call_method d cs) =
     foldl number_add (field_of u d) (map snd (filter (\<lambda>c. fst c = u) cs))"
proof (induction cs arbitrary: d)
  case Nil
  show ?case by simp
next
  case (Cons c cs)
  obtain w n where c: "c = (w, n)" by (cases c)
  show ?case unfolding c by (simp add: Cons.IH call_method_field)
qed

lemma foldl_number_add_exact:
  assumes "\<bar>a\<bar> + sum_list (map abs ns) \<le> 2 ^ 53"
  shows "foldl number_add (Finite (of_int a)) (map (\<lambda>n. Finite (of_int n)) ns) =
         Finite (of_int (a + sum_list ns))"
  using assms
proof (induction ns arbitrary: a)
  case Nil
  show ?case by simp
next
  case (Cons n ns)
  have "0 \<le> sum_list (map abs ns)" by (induction ns) auto
  with Cons.prems have small: "\<bar>a + n\<bar> \<le> 2 ^ 53" by simp
  have next_bound: "\<bar>a + n\<bar> + sum_list (map abs ns) \<le> 2 ^ 53"
    using Cons.prems by simp
  have "number_add (Finite (of_int a)) (Finite (of_int n)) = to_double (of_int (a + n))"
    by simp
  also have "\<dots> = Finite (of_int (a + n))" using small by (rule to_double_int)
  finally show ?case using Cons.IH [OF next_bound] by (simp add: add.assoc)
qed

lemma filter_integer_calls:
  "map snd (filter (\<lambda>c. fst c = u) (integer_calls cs)) =
     map (\<lambda>n. Finite (of_int n)) (map snd (filter (\<lambda>c. fst c = u) cs))"
  by (induction cs) (auto simp: integer_calls_def)

lemma field_exact:
  assumes "passed_magnitude u cs \<le> 2 ^ 53"
  shows "field_of u (call_sequence (integer_calls cs)) = Finite (of_int (passed_total u cs))"
proof -
  have m: "\<bar>0\<bar> + sum_list (map abs (map snd (filter (\<lambda>c. fst c = u) cs))) \<le> 2 ^ 53"
    using assms by (simp add: passed_magnitude_def comp_def)
  have z: "field_of u new_DeltaBuilder = Finite (of_int 0)"
    by (cases u) (simp_all add: new_DeltaBuilder_def)
  show ?thesis
    unfolding call_sequence_def foldl_call_method_field filter_integer_calls z
    using foldl_number_add_exact [OF m] by (simp add: passed_total_def)
qed

lemma toObject_fields:
  "DeltaBuilder_toObject d =
     [(''years'', VNum (field_of Years d)), (''months'', VNum (field_of Months d)),
      (''days'', VNum (field_of Days d)), (''hours'', VNum (field_of Hours d)),
      (''minutes'', VNum (field_of Minutes d)), (''seconds'', VNum (field_of Seconds d))]"
  by (simp add: DeltaBuilder_toObject_def)

lemma call_sequence_exact:
  assumes "within_safe_range cs"
  shows "DeltaBuilder_toObject (call_sequence (integer_calls cs)) =
     [(''years'', VNum (Finite (of_int (passed_total Years cs)))),
      (''months'', VNum (Finite (of_int (passed_total Months cs)))),
      (''days'', VNum (Finite (of_int (passed_total Days cs)))),
      (''hours'', VNum (Finite (of_int (passed_total Hours cs)))),
      (''minutes'', VNum (Finite (of_int (passed_total Minutes cs)))),
      (''seconds'', VNum (Finite (of_int (passed_total Seconds cs))))]"
proof -
  have b: "passed_magnitude u cs \<le> 2 ^ 53" for u
    using assms by (cases u) (simp_all add: within_safe_range_def)
  show ?thesis
    unfolding toObject_fields by (simp only: field_exact [OF b])
qed

lemma passed_mset:
  assumes "mset cs' = mset cs"
  shows "passed_total u cs' = passed_total u cs"
    and "passed_magnitude u cs' = passed_magnitude u cs"
proof -
  have t: "\<And>xs. passed_total u xs = sum_mset (image_mset snd (filter_mset (\<lambda>c. fst c = u) (mset xs)))"
    unfolding passed_total_def
    by (simp only: sum_mset_sum_list [symmetric] mset_map mset_filter)
  have m: "\<And>xs. passed_magnitude u xs =
      sum_mset (image_mset (\<lambda>c. \<bar>snd c\<bar>) (filter_mset (\<lambda>c. fst c = u) (mset xs)))"
    unfolding passed_magnitude_def
    by (simp only: sum_mset_sum_list [symmetric] mset_map mset_filter)
  show "passed_total u cs' = passed_total u cs" by (simp only: t assms)
  show "passed_magnitude u cs' = passed_magnitude u cs" by (simp only: m assms)
qed

text \<open>
  C8.  The fields are JavaScript numbers and each method adds in floating point.  For
  every sequence of unit-method calls on a fresh builder whose arguments are integers
  with, per unit, absolute values summing to at most \<open>2^53\<close>, each of the six fields of the
  resulting object is the sum of the values passed to that unit's method, and a sequence
  making the same calls in another order gives the same object.
  \<^verbatim>\<open>new DeltaBuilder().years(1).months(2).years(1).toObject()\<close> is
  \<^verbatim>\<open>{years: 2, months: 2, days: 0, hours: 0, minutes: 0, seconds: 0}\<close>.
\<close>

theorem delta_accumulation_exact:
  assumes "within_safe_range cs"
  shows "DeltaBuilder_toObject (call_sequence (integer_calls cs)) =
     [(''years'', VNum (Finite (of_int (passed_total Years cs)))),
      (''months'', VNum (Finite (of_int (passed_total Months cs)))),
      (''days'', VNum (Finite (of_int (passed_total Days cs)))),
      (''hours'', VNum (Finite (of_int (passed_total Hours cs)))),
      (''minutes'', VNum (Finite (of_int (passed_total Minutes cs)))),
      (''seconds'', VNum (Finite (of_int (passed_total Seconds cs))))]
   \<and> (mset cs' = mset cs \<longrightarrow>
        DeltaBuilder_toObject (call_sequence (integer_calls cs')) =
        DeltaBuilder_toObject (call_sequence (integer_calls cs)))
   \<and> DeltaBuilder_toObject (years (Finite 1) (months (Finite 2) (years (Finite 1) new_DeltaBuilder))) =
     [(''years'', VNum (Finite 2)), (''months'', VNum (Finite 2)), (''days'', VNum (Finite 0)),
      (''hours'', VNum (Finite 0)), (''minutes'', VNum (Finite 0)), (''seconds'', VNum (Finite 0))]"
proof (intro conjI impI)
  show "DeltaBuilder_toObject (call_sequence (integer_calls cs)) =
     [(''years'', VNum (Finite (of_int (passed_total Years cs)))),
      (''months'', VNum (Finite (of_int (passed_total Months cs)))),
      (''days'', VNum (Finite (of_int (passed_total Days cs)))),
      (''hours'', VNum (Finite (of_int (passed_total Hours cs)))),
      (''minutes'', VNum (Finite (of_int (passed_total Minutes cs)))),
      (''seconds'', VNum (Finite (of_int (passed_total Seconds cs))))]"
    using assms by (rule call_sequence_exact)
next
  assume p: "mset cs' = mset cs"
  have "within_safe_range cs'"
    using assms by (simp add: within_safe_range_def passed_mset(2) [OF p])
  then show "DeltaBuilder_toObject (call_sequence (integer_calls cs')) =
        DeltaBuilder_toObject (call_sequence (integer_calls cs))"
    using assms by (simp add: call_sequence_exact passed_mset(1) [OF p])
next
  show "DeltaBuilder_toObject (years (Finite 1) (months (Finite 2) (years (Finite 1) new_DeltaBuilder))) =
     [(''years'', VNum (Finite 2)), (''months'', VNum (Finite 2)), (''days'', VNum (Finite 0)),
      (''hours'', VNum (Finite 0)), (''minutes'', VNum (Finite 0)), (''seconds'', VNum (Finite 0))]"
    by (simp add: DeltaBuilder_toObject_def years_def months_def new_DeltaBuilder_def number_eval)
qed

theorem delta_accumulation_exact_witness:
  "within_safe_range [(Years, 1), (Months, 2), (Years, 1)]
   \<and> mset [(Months, 2), (Years, 1), (Years, 1)] = mset [(Years, 1), (Months, 2), (Years, 1)]
   \<and> DeltaBuilder_toObject (call_sequence (integer_calls [(Months, 2), (Years, 1), (Years, 1)])) =
     DeltaBuilder_toObject (call_sequence (integer_calls [(Years, 1), (Months, 2), (Years, 1)]))
   \<and> DeltaBuilder_toObject (call_sequence (integer_calls [(Years, 1), (Months, 2), (Years, 1)])) =
     [(''years'', VNum (Finite 2)), (''months'', VNum (Finite 2)), (''days'', VNum (Finite 0)),
      (''hours'', VNum (Finite 0)), (''minutes'', VNum (Finite 0)), (''seconds'', VNum (Finite 0))]"
proof -
  have r: "within_safe_range [(Years, 1), (Months, 2), (Years, 1)]"
    by (simp add: within_safe_range_def passed_magnitude_def)
  have m: "mset [(Months, 2), (Years, 1), (Years, 1)] = mset [(Years, 1), (Months, 2), (Years, 1 :: int)]"
    by simp
  from delta_accumulation_exact [OF r, of "[(Months, 2), (Years, 1), (Years, 1)]"] r m
  show ?thesis by (simp add: passed_total_def)
qed

text \<open>
  Without the bound the result depends on the order of the calls, so the property does
  not hold of every sequence: \<^verbatim>\<open>years(2**53).years(1).years(1)\<close> leaves \<open>2^53\<close> (each
  addition of 1 is a tie, which goes back to the even significand), while
  \<^verbatim>\<open>years(1).years(1).years(2**53)\<close> gives \<open>2^53 + 2\<close>, the sum of the values passed.
  Both arguments are doubles.
\<close>

theorem delta_accumulation_rounds:
  "is_double 9007199254740992 \<and> is_double 1
   \<and> mset [(Years, Finite 1), (Years, Finite 1), (Years, Finite 9007199254740992)] =
     mset [(Years, Finite 9007199254740992), (Years, Finite 1), (Years, Finite 1)]
   \<and> DeltaBuilder_toObject
       (call_sequence [(Years, Finite 9007199254740992), (Years, Finite 1), (Years, Finite 1)]) =
     [(''years'', VNum (Finite 9007199254740992)), (''months'', VNum (Finite 0)),
      (''days'', VNum (Finite 0)), (''hours'', VNum (Finite 0)), (''minutes'', VNum (Finite 0)),
      (''seconds'', VNum (Finite 0))]
   \<and> DeltaBuilder_toObject
       (call_sequence [(Years, Finite 1), (Years, Finite 1), (Years, Finite 9007199254740992)]) =
     [(''years'', VNum (Finite 9007199254740994)), (''months'', VNum (Finite 0)),
      (''days'', VNum (Finite 0)), (''hours'', VNum (Finite 0)), (''minutes'', VNum (Finite 0)),
      (''seconds'', VNum (Finite 0))]"
  by (simp add: is_double_def call_sequence_def DeltaBuilder_toObject_def years_def
      new_DeltaBuilder_def number_eval)

section \<open>The router's job types\<close>

text \<open>
  C1.  The specification asks that every leaf's job type be the dot-joined keys from the
  root to the leaf and its endpoint that of the innermost wrapper, whatever precedes or
  follows a wrapped entry.  In the tree
  \<^verbatim>\<open>{ a: { b: customEndpoint("E2", f), c: g } }\<close> the recursive call for the wrapped entry
  \<open>b\<close> ends with \<^verbatim>\<open>keyStack.pop()\<close> although nothing was pushed for it, which removes
  \<open>a\<close>: the leaf \<open>c\<close> that follows gets the job type \<open>c\<close>, where the specification asks
  for \<open>a.c\<close>.  The request function resolves \<open>a.c\<close> to that leaf and has no route \<open>c\<close>.
\<close>

theorem createRouter_sibling_after_wrapper:
  "routes (createRouter env api_key secret public_key ''D''
             [(''a'', Obj [(''b'', customEndpoint ''E2'' (Fn f)), (''c'', Fn g)])])
     = [(''a'', Routes [(''b'', Call ''a.b'' ''E2''), (''c'', Call ''c'' ''D'')])]
   \<and> spec_routes [] ''D'' [(''a'', Obj [(''b'', customEndpoint ''E2'' (Fn f)), (''c'', Fn g)])]
     = [(''a'', Routes [(''b'', Call ''a.b'' ''E2''), (''c'', Call ''a.c'' ''D'')])]
   \<and> find_fn (Obj [(''a'', Obj [(''b'', customEndpoint ''E2'' (Fn f)), (''c'', Fn g)])])
        (split_on CHR ''.'' ''c'') = None
   \<and> find_fn (Obj [(''a'', Obj [(''b'', customEndpoint ''E2'' (Fn f)), (''c'', Fn g)])])
        (split_on CHR ''.'' ''a.c'') = Some g"
  by (simp add: createRouter_def customEndpoint_def)

section \<open>The inbound request function\<close>

text \<open>The request function evaluated on the examples, and its shape once a request is accepted.\<close>


lemmas eval_defs =
  parseInt_def trim_start_def digit_of_def white_space_def is_continuation_def
  line_terminator_def fromHex_def TextEncoder_encode_def ToString_def too_old_def
  MAX_TIME_DIFF_def verifySignature_def sextet_def sextet_of_def base64_alphabet_def
  test_env_def test_router_def createRouter_def customEndpoint_def test_JSON_parse_def
  body_test1_def body_two_args_def body_failing_def test_decode_def test_encode_def
  returning_def failing_def decrypt_def test_tag_def is_surrogate_def

lemma httpRoute_accepted:
  assumes "accepted env router now req"
  shows "httpRoute env router now req =
     (case JSON_parse env (body req) of
        None \<Rightarrow> (Inl SyntaxError, [])
      | Some parsed \<Rightarrow>
          if parsed = DNull then (Inl TypeError, [])
          else
           (case decrypt env (encryptionKey router) (get_property parsed ''encrypted_data'') of
              Inl e \<Rightarrow> (Inr (Response 400 (Some ''Bad Request'')), [])
            | Inr decrypted \<Rightarrow>
                (case decode env decrypted of
                   None \<Rightarrow> (Inr (Response 400 (Some ''Bad Request'')), [])
                 | Some decoded \<Rightarrow>
                     (case string_value (get_property parsed ''type'') of
                        None \<Rightarrow> (Inl TypeError, [])
                      | Some type \<Rightarrow>
                          (case find_fn (Obj (fns router)) (split_on CHR ''.'' type) of
                             None \<Rightarrow> (Inr (Response 404 (Some ''Endpoint Not Found'')), [])
                           | Some fn \<Rightarrow>
                               (case spread decoded of
                                  None \<Rightarrow> (Inl TypeError, [])
                                | Some args \<Rightarrow>
                                    (case run fn args of
                                       Some e \<Rightarrow> (Inl e, [(hname fn, args)])
                                     | None \<Rightarrow> (Inr (Response 204 None), [(hname fn, args)]))))))))"
  using assms by (simp add: httpRoute_def accepted_def Let_def)

lemma httpRoute_resolved:
  assumes "accepted env router now req" and "resolves_to env router req fn args"
  shows "httpRoute env router now req =
     ((case run fn args of Some e \<Rightarrow> Inl e | None \<Rightarrow> Inr (Response 204 None)),
      [(hname fn, args)])"
  using assms(2) unfolding httpRoute_accepted [OF assms(1)] resolves_to_def
  by (auto split: option.splits data.splits sum.splits)

lemma test_accepted:
  "accepted test_env test_router 1000000
     \<lparr>signature_header = Some ''aa'', timestamp_header = Some ''2000'', body = b\<rparr>"
  by (simp add: accepted_def eval_defs)

lemma test_resolves_test1:
  "resolves_to test_env test_router
     \<lparr>signature_header = s, timestamp_header = t, body = body_test1\<rparr> returning [DNum 1]"
  by (simp add: resolves_to_def eval_defs)

lemma test_resolves_two_args:
  "resolves_to test_env test_router
     \<lparr>signature_header = s, timestamp_header = t, body = body_two_args\<rparr> returning [DNum 1, DNum 2]"
  by (simp add: resolves_to_def eval_defs)

lemma test_resolves_failing:
  "resolves_to test_env test_router
     \<lparr>signature_header = s, timestamp_header = t, body = body_failing\<rparr> failing [DNum 1]"
  by (simp add: resolves_to_def eval_defs)

text \<open>
  The responses that the request function does give.  A payload that does not decrypt or
  does not decode is answered with 400 and an unknown route with 404, in both cases
  without a call to any handler; a signature that does not verify is answered with 401.
  An absent timestamp header is not detected: \<^verbatim>\<open>parseInt(null, 10)\<close> is \<^verbatim>\<open>NaN\<close>, the
  request is never too old, and the signed message starts with the text "null".
\<close>

lemma payload_not_decrypted:
  assumes "accepted env router now req"
    and "JSON_parse env (body req) = Some parsed" and "parsed \<noteq> DNull"
    and "decrypt env (encryptionKey router) (get_property parsed ''encrypted_data'') = Inl e"
  shows "httpRoute env router now req = (Inr (Response 400 (Some ''Bad Request'')), [])"
  using assms(2-4) unfolding httpRoute_accepted [OF assms(1)] by simp

lemma payload_not_decoded:
  assumes "accepted env router now req"
    and "JSON_parse env (body req) = Some parsed" and "parsed \<noteq> DNull"
    and "decrypt env (encryptionKey router) (get_property parsed ''encrypted_data'') = Inr decrypted"
    and "decode env decrypted = None"
  shows "httpRoute env router now req = (Inr (Response 400 (Some ''Bad Request'')), [])"
  using assms(2-5) unfolding httpRoute_accepted [OF assms(1)] by simp

lemma route_not_found:
  assumes "accepted env router now req"
    and "JSON_parse env (body req) = Some parsed" and "parsed \<noteq> DNull"
    and "decrypt env (encryptionKey router) (get_property parsed ''encrypted_data'') = Inr decrypted"
    and "decode env decrypted = Some decoded"
    and "string_value (get_property parsed ''type'') = Some type"
    and "find_fn (Obj (fns router)) (split_on CHR ''.'' type) = None"
  shows "httpRoute env router now req = (Inr (Response 404 (Some ''Endpoint Not Found'')), [])"
  using assms(2-7) unfolding httpRoute_accepted [OF assms(1)] by simp

lemma signature_not_valid:
  assumes "\<not> too_old now (timestamp_header req)"
    and "verifySignature env (publicKey router) (ToString (timestamp_header req) @ body req)
           (signature_header req) = Inr False"
  shows "httpRoute env router now req =
     (Inr (Response 401 (Some ''Bad Request - invalid signature'')), [])"
  using assms by (simp add: httpRoute_def Let_def)

lemma absent_timestamp_not_too_old: "\<not> too_old now None"
  by (simp add: too_old_def ToString_def parseInt_def trim_start_def white_space_def digit_of_def Let_def)

lemma absent_timestamp_dispatched:
  "httpRoute test_env test_router now
     \<lparr>signature_header = Some ''aa'', timestamp_header = None, body = body_test1\<rparr>
   = (Inr (Response 204 None), [(''returning'', [DNum 1])])"
  by (simp add: httpRoute_def eval_defs)

text \<open>
  C2.  The specification asks that a failure of the invoked handler be caught and answered
  with a 500 response.  The request function has no \<^verbatim>\<open>try\<close> around \<^verbatim>\<open>await fn(...data)\<close>:
  when an accepted request resolves to a handler and the handler throws \<open>e\<close>, the promise
  returned by the request function rejects with \<open>e\<close> and no response is produced.
\<close>

theorem handler_exception_propagates:
  assumes "accepted env router now req"
    and "resolves_to env router req fn args"
    and "run fn args = Some e"
  shows "httpRoute env router now req = (Inl e, [(hname fn, args)])"
  using assms(3) by (simp add: httpRoute_resolved [OF assms(1) assms(2)])

theorem handler_exception_propagates_witness:
  "accepted test_env test_router 1000000
     \<lparr>signature_header = Some ''aa'', timestamp_header = Some ''2000'', body = body_failing\<rparr>
   \<and> resolves_to test_env test_router
       \<lparr>signature_header = Some ''aa'', timestamp_header = Some ''2000'', body = body_failing\<rparr>
       failing [DNum 1]
   \<and> run failing [DNum 1] = Some (Thrown ''handler failed'')
   \<and> httpRoute test_env test_router 1000000
       \<lparr>signature_header = Some ''aa'', timestamp_header = Some ''2000'', body = body_failing\<rparr>
     = (Inl (Thrown ''handler failed''), [(''failing'', [DNum 1])])"
proof -
  have r: "run failing [DNum 1] = Some (Thrown ''handler failed'')"
    by (simp add: failing_def)
  from handler_exception_propagates [OF test_accepted test_resolves_failing r]
    test_accepted test_resolves_failing r
  show ?thesis by (simp add: failing_def)
qed

lemma too_old_iff:
  "too_old now timestamp \<longleftrightarrow>
     (\<exists>requestTime. parseInt (ToString timestamp) 10 = Some requestTime
        \<and> now div 1000 - requestTime > 300)"
  by (simp add: too_old_def MAX_TIME_DIFF_def Let_def split: option.splits)

lemma not_too_old_response:
  assumes "\<not> too_old now (timestamp_header req)"
  shows "httpRoute env router now req \<noteq> (Inr (Response 401 (Some ''Bad Request - too old'')), [])"
  using assms
  by (simp add: httpRoute_def Let_def split: sum.splits bool.splits option.splits)

text \<open>
  C3 (as amended).  The request is answered \<^verbatim>\<open>401 Bad Request - too old\<close> exactly when
  its timestamp parses to a number and \<^verbatim>\<open>currentTime - requestTime\<close> exceeds 300, that
  is when the timestamp lies more than 300 seconds in the past; whether the signature
  verifies plays no part.  The difference is not taken in absolute value: a timestamp in
  the future never makes the request stale.
\<close>

theorem stale_iff_older_than_300:
  "httpRoute env router now req = (Inr (Response 401 (Some ''Bad Request - too old'')), [])
   \<longleftrightarrow> (\<exists>requestTime. parseInt (ToString (timestamp_header req)) 10 = Some requestTime
          \<and> now div 1000 - requestTime > 300)"
proof (cases "too_old now (timestamp_header req)")
  case True
  then have "httpRoute env router now req = (Inr (Response 401 (Some ''Bad Request - too old'')), [])"
    by (simp add: httpRoute_def Let_def)
  with True show ?thesis by (simp add: too_old_iff)
next
  case False
  have "httpRoute env router now req \<noteq> (Inr (Response 401 (Some ''Bad Request - too old'')), [])"
    using False by (rule not_too_old_response)
  with False show ?thesis by (simp add: too_old_iff)
qed

text \<open>
  C3, the claim as stated, fails: with the clock at 1000 seconds, a request stamped 2000
  (1000 seconds in the future) whose signature verifies is dispatched and answered 204.
\<close>

theorem future_timestamp_counterexample:
  "\<bar>1000000 div 1000 - 2000\<bar> > (300 :: int)
   \<and> parseInt (ToString (Some ''2000'')) 10 = Some 2000
   \<and> verifySignature test_env (publicKey test_router) (ToString (Some ''2000'') @ body_test1)
       (Some ''aa'') = Inr True
   \<and> httpRoute test_env test_router 1000000
       \<lparr>signature_header = Some ''aa'', timestamp_header = Some ''2000'', body = body_test1\<rparr>
     = (Inr (Response 204 None), [(''returning'', [DNum 1])])"
proof -
  have "httpRoute test_env test_router 1000000
       \<lparr>signature_header = Some ''aa'', timestamp_header = Some ''2000'', body = body_test1\<rparr>
     = (Inr (Response 204 None), [(''returning'', [DNum 1])])"
    by (simp add: httpRoute_resolved [OF test_accepted test_resolves_test1] returning_def)
  moreover have "parseInt (ToString (Some ''2000'')) 10 = Some 2000"
    by (simp add: eval_defs)
  moreover have "verifySignature test_env (publicKey test_router)
      (ToString (Some ''2000'') @ body_test1) (Some ''aa'') = Inr True"
    by (simp add: eval_defs)
  ultimately show ?thesis by simp
qed

text \<open>
  C4.  The specification asks for a 400 response when the body of an accepted request is
  malformed.  \<^verbatim>\<open>JSON.parse(body)\<close> stands before the \<^verbatim>\<open>try\<close>: when it throws, the promise
  returned by the request function rejects with the \<^verbatim>\<open>SyntaxError\<close>.
\<close>

theorem malformed_body_throws:
  assumes "accepted env router now req" and "JSON_parse env (body req) = None"
  shows "httpRoute env router now req = (Inl SyntaxError, [])"
  using assms(2) by (simp add: httpRoute_accepted [OF assms(1)])

theorem malformed_body_throws_witness:
  "accepted test_env test_router 1000000
     \<lparr>signature_header = Some ''aa'', timestamp_header = Some ''2000'', body = ''not json''\<rparr>
   \<and> JSON_parse test_env ''not json'' = None
   \<and> httpRoute test_env test_router 1000000
       \<lparr>signature_header = Some ''aa'', timestamp_header = Some ''2000'', body = ''not json''\<rparr>
     = (Inl SyntaxError, [])"
proof -
  have p: "JSON_parse test_env ''not json'' = None"
    by (simp add: test_env_def test_JSON_parse_def body_test1_def body_two_args_def body_failing_def)
  from malformed_body_throws [OF test_accepted [of "''not json''"]] p test_accepted [of "''not json''"]
  show ?thesis by simp
qed

lemma fromHex_null: "fromHex None = Inl TypeError"
  by (simp add: fromHex_def)

lemma fromHex_error: "fromHex hex = Inl e \<Longrightarrow> e = TypeError"
  by (auto simp: fromHex_def split: option.splits list.splits)

text \<open>
  C5.  The specification asks for a rejection response when a signature header is
  absent.  \<^verbatim>\<open>headers.get\<close> then gives \<^verbatim>\<open>null\<close>, and \<^verbatim>\<open>fromHex(null)\<close>, called before
  the \<^verbatim>\<open>try\<close> of \<^verbatim>\<open>verifySignature\<close>, is a \<^verbatim>\<open>TypeError\<close>: unless the timestamp is too
  old, the promise returned by the request function rejects.
\<close>

theorem missing_signature_header_throws:
  assumes "signature_header req = None"
    and "\<not> too_old now (timestamp_header req)"
  shows "httpRoute env router now req = (Inl TypeError, [])"
proof (cases "fromHex (Some (publicKey router))")
  case (Inl e)
  then have "e = TypeError" by (rule fromHex_error)
  with Inl assms show ?thesis
    by (simp add: httpRoute_def verifySignature_def Let_def)
next
  case (Inr publicKeyBytes)
  with assms show ?thesis
    by (simp add: httpRoute_def verifySignature_def Let_def fromHex_null)
qed

theorem missing_signature_header_throws_witness:
  "signature_header \<lparr>signature_header = None, timestamp_header = Some ''2000'', body = body_test1\<rparr> = None
   \<and> \<not> too_old 1000000 (Some ''2000'')
   \<and> httpRoute test_env test_router 1000000
       \<lparr>signature_header = None, timestamp_header = Some ''2000'', body = body_test1\<rparr>
     = (Inl TypeError, [])"
proof -
  have t: "\<not> too_old 1000000
      (timestamp_header \<lparr>signature_header = None, timestamp_header = Some ''2000'', body = body_test1\<rparr>)"
    by (simp add: eval_defs)
  from missing_signature_header_throws [of _ 1000000 test_env test_router, OF _ t] t
  show ?thesis by simp
qed

text \<open>
  C7.  The specification asks that the number of decoded arguments be compared with the
  handler's declared arity and that a mismatch fail without invoking the handler.  The
  request function makes no such comparison: the handler is invoked with the decoded
  arguments whatever their number, and the response is 204 when it returns.
\<close>

theorem arity_not_checked:
  assumes "accepted env router now req"
    and "resolves_to env router req fn args"
    and "length args \<noteq> arity fn"
  shows "httpRoute env router now req =
     ((case run fn args of Some e \<Rightarrow> Inl e | None \<Rightarrow> Inr (Response 204 None)),
      [(hname fn, args)])"
  by (rule httpRoute_resolved [OF assms(1) assms(2)])

theorem arity_not_checked_witness:
  "accepted test_env test_router 1000000
     \<lparr>signature_header = Some ''aa'', timestamp_header = Some ''2000'', body = body_two_args\<rparr>
   \<and> resolves_to test_env test_router
       \<lparr>signature_header = Some ''aa'', timestamp_header = Some ''2000'', body = body_two_args\<rparr>
       returning [DNum 1, DNum 2]
   \<and> length [DNum 1, DNum 2] \<noteq> arity returning
   \<and> httpRoute test_env test_router 1000000
       \<lparr>signature_header = Some ''aa'', timestamp_header = Some ''2000'', body = body_two_args\<rparr>
     = (Inr (Response 204 None), [(''returning'', [DNum 1, DNum 2])])"
proof -
  have a: "length [DNum 1, DNum 2] \<noteq> arity returning"
    by (simp add: returning_def)
  from arity_not_checked [OF test_accepted test_resolves_two_args a]
    test_accepted test_resolves_two_args a
  show ?thesis by (simp add: returning_def)
qed

section \<open>The payload cipher\<close>

lemma split_on_no_sep: "sep \<notin> set s \<Longrightarrow> split_on sep s = [s]"
  by (induction s) auto

lemma split_on_append:
  "sep \<notin> set a \<Longrightarrow> split_on sep (a @ sep # b) = a # split_on sep b"
  by (induction a) auto

lemma decrypt_envelope:
  assumes "CHR '':'' \<notin> set a" and "CHR '':'' \<notin> set b" and "a \<noteq> []" and "b \<noteq> []"
  shows "decrypt env key (Some (DStr (a @ '':'' @ b))) =
    (case fromBase64 env a of
       None \<Rightarrow> Inl TypeError
     | Some iv_bytes \<Rightarrow>
         (case fromBase64 env b of
            None \<Rightarrow> Inl TypeError
          | Some encrypted_bytes \<Rightarrow>
              (case aes_gcm_decrypt env key iv_bytes encrypted_bytes of
                 None \<Rightarrow> Inl OperationError
               | Some decrypted \<Rightarrow> Inr decrypted)))"
  using assms by (simp add: decrypt_def split_on_append split_on_no_sep)

subsection \<open>The standard base64 codec\<close>

text \<open>
  The codec of the example environment is standard base64 with padding.  It decodes
  every encoding back to the bytes encoded, never writes a colon (the separator of the
  envelope), and writes the empty text only for no bytes: the hypotheses that the
  round trip below places on the codec hold of it for every byte string.
\<close>

lemma sextet_of_alphabet:
  "map sextet_of base64_alphabet = map Some [0..<64]"
  by (simp add: sextet_of_def base64_alphabet_def upt_conv_Cons)

lemma length_alphabet: "length base64_alphabet = 64"
  by (simp add: base64_alphabet_def)

lemma sextet_of_sextet: "sextet_of (sextet n) = Some (n mod 64)"
proof -
  have "n mod 64 < length base64_alphabet" by (simp add: length_alphabet)
  then have "sextet_of (base64_alphabet ! (n mod 64)) = map sextet_of base64_alphabet ! (n mod 64)"
    by (rule nth_map [symmetric])
  also have "\<dots> = Some (n mod 64)"
    unfolding sextet_of_alphabet by (simp del: upt_rec_numeral)
  finally show ?thesis by (simp add: sextet_def)
qed


lemma sextet_not_special: "sextet n \<noteq> CHR ''=''" "sextet n \<noteq> CHR '':''"
proof -
  have "sextet_of (CHR ''='') = None" "sextet_of (CHR '':'') = None"
    by (simp_all add: sextet_of_def)
  with sextet_of_sextet [of n] show "sextet n \<noteq> CHR ''=''" "sextet n \<noteq> CHR '':''"
    by auto
qed

lemma base64_digits:
  fixes n :: nat
  assumes "n < 16777216"
  shows "(n div 262144 mod 64) * 262144 + (n div 4096 mod 64) * 4096 + (n div 64 mod 64) * 64
         + n mod 64 = n"
proof -
  have d1: "n div 64 div 64 = n div 4096"
    using div_mult2_eq [of n 64 64] by simp
  have d2: "n div 4096 div 64 = n div 262144"
    using div_mult2_eq [of n 4096 64] by simp
  have e0: "n = (n div 64) * 64 + n mod 64" by simp
  have e1: "n div 64 = (n div 4096) * 64 + n div 64 mod 64"
    using div_mult_mod_eq [of "n div 64" 64] by (simp add: d1)
  have e2: "n div 4096 = (n div 262144) * 64 + n div 4096 mod 64"
    using div_mult_mod_eq [of "n div 4096" 64] by (simp add: d2)
  have e3: "n div 262144 mod 64 = n div 262144"
    using assms by simp
  from e0 e1 e2 e3 show ?thesis by linarith
qed

lemma three_bytes:
  fixes a b c :: nat
  assumes "a < 256" "b < 256" "c < 256"
  shows "(a * 65536 + b * 256 + c) div 65536 mod 256 = a"
    and "(a * 65536 + b * 256 + c) div 256 mod 256 = b"
    and "(a * 65536 + b * 256 + c) mod 256 = c"
    and "a * 65536 + b * 256 + c < 16777216"
proof -
  have s1: "a * 65536 + b * 256 + c = (b * 256 + c) + a * 65536" by simp
  have s2: "a * 65536 + b * 256 + c = c + (a * 256 + b) * 256" by simp
  have r: "b * 256 + c < 65536" using assms by linarith
  have "(a * 65536 + b * 256 + c) div 65536 = a"
    unfolding s1 using r by simp
  then show "(a * 65536 + b * 256 + c) div 65536 mod 256 = a" using assms by simp
  have "(a * 65536 + b * 256 + c) div 256 = a * 256 + b"
    unfolding s2 using assms by simp
  then show "(a * 65536 + b * 256 + c) div 256 mod 256 = b" using assms by simp
  have "(c + (a * 256 + b) * 256) mod 256 = c mod 256"
    by (rule mod_mult_self1)
  then show "(a * 65536 + b * 256 + c) mod 256 = c"
    using assms by (simp only: s2 mod_less)
  show "a * 65536 + b * 256 + c < 16777216" using assms by linarith
qed


lemma one_byte:
  fixes a :: nat
  assumes "a < 256"
  shows "((a * 65536) div 262144 mod 64 * 64 + (a * 65536) div 4096 mod 64) div 16 mod 256 = a"
proof -
  have d: "(a * 65536) div 4096 = a * 16" by simp
  have q: "(a * 65536) div 262144 = a div 4"
  proof -
    have "a * 65536 div 65536 div 4 = a * 65536 div 262144"
      using div_mult2_eq [of "a * 65536" 65536 4] by simp
    then show ?thesis by simp
  qed
  have "a div 4 < 64" using assms by simp
  then have x: "(a * 65536) div 262144 mod 64 = a div 4" by (simp add: q)
  have "a * 16 mod 64 = (a mod 4) * 16"
    using mult_mod_right [of 16 a 4] by (simp add: mult.commute)
  then have y: "(a * 65536) div 4096 mod 64 = (a mod 4) * 16" by (simp only: d)
  have "a div 4 * 64 + a mod 4 * 16 = a * 16"
    using div_mult_mod_eq [of a 4] by linarith
  then have "(a div 4 * 64 + a mod 4 * 16) div 16 = a" by simp
  then show ?thesis using assms by (simp only: x y mod_less)
qed

lemma two_bytes:
  fixes a b n m :: nat
  assumes a: "a < 256" and b: "b < 256"
    and n_def: "n = a * 65536 + b * 256"
    and m_def: "m = n div 262144 mod 64 * 4096 + n div 4096 mod 64 * 64 + n div 64 mod 64"
  shows "m div 1024 mod 256 = a" and "m div 4 mod 256 = b"
proof -
  have lt: "n < 16777216" using three_bytes(4) [of a b 0] a b by (simp add: n_def)
  have n64: "n mod 64 = 0"
  proof -
    have "n = 0 + (a * 1024 + b * 4) * 64" by (simp add: n_def)
    then have "n mod 64 = 0 mod 64" by (simp only: mod_mult_self1)
    then show ?thesis by simp
  qed
  have "(x * 4096 + y * 64 + z) * 64 + w = x * 262144 + y * 4096 + z * 64 + w"
    for x y z w :: nat by simp
  then have "m * 64 + n mod 64 = n"
    unfolding m_def using base64_digits [OF lt] by (simp only:)
  then have "m * 64 = n" by (simp only: n64 add_0_right)
  also have "n = (a * 1024 + b * 4) * 64" by (simp add: n_def)
  finally have m: "m = a * 1024 + b * 4" by simp
  have s1: "a * 1024 + b * 4 = b * 4 + a * 1024" by simp
  have "b * 4 < 1024" using b by simp
  then have "(b * 4 + a * 1024) div 1024 = a" by simp
  then have "m div 1024 = a" by (simp only: m s1)
  then show "m div 1024 mod 256 = a" using a by simp
  have "(a * 256 + b) * 4 div 4 = a * 256 + b" by (rule nonzero_mult_div_cancel_right) simp
  moreover have "a * 1024 + b * 4 = (a * 256 + b) * 4" by simp
  ultimately have "m div 4 = b + a * 256" by (simp only: m add.commute)
  moreover have "(b + a * 256) mod 256 = b mod 256" by (rule mod_mult_self1)
  ultimately show "m div 4 mod 256 = b" using b by (simp only: mod_less)
qed


lemma unat_byte: "unat (a :: byte) < 256"
  using unsigned_less [of a] by simp

lemma of_nat_unat_byte: "of_nat (unat a) = (a :: byte)"
  by simp

lemma decode_group:
  assumes "sextet_of a = Some x" "sextet_of b = Some y" "sextet_of c = Some z"
    and "sextet_of d = Some w" "c \<noteq> CHR ''=''" "d \<noteq> CHR ''=''"
    and "base64_decode rest = Some bs"
  shows "base64_decode (a # b # c # d # rest) =
         Some ([of_nat ((x * 262144 + y * 4096 + z * 64 + w) div 65536 mod 256),
                of_nat ((x * 262144 + y * 4096 + z * 64 + w) div 256 mod 256),
                of_nat ((x * 262144 + y * 4096 + z * 64 + w) mod 256)] @ bs)"
proof (cases rest)
  case Nil
  with assms show ?thesis by simp
next
  case (Cons e es)
  with assms show ?thesis by simp
qed

lemma base64_encode_three:
  fixes a b c :: byte
  assumes "base64_decode (base64_encode rest) = Some rest"
  shows "base64_decode (base64_encode (a # b # c # rest)) = Some (a # b # c # rest)"
proof -
  define n where "n = unat a * 65536 + unat b * 256 + unat c"
  define x where "x = n div 262144 mod 64"
  define y where "y = n div 4096 mod 64"
  define z where "z = n div 64 mod 64"
  define w where "w = n mod 64"
  note bytes = three_bytes [OF unat_byte [of a] unat_byte [of b] unat_byte [of c]]
  have lt: "n < 16777216" unfolding n_def by (rule bytes(4))
  have sum: "x * 262144 + y * 4096 + z * 64 + w = n"
    unfolding x_def y_def z_def w_def by (rule base64_digits [OF lt])
  have enc: "base64_encode (a # b # c # rest) =
      sextet (n div 262144) # sextet (n div 4096) # sextet (n div 64) # sextet n
        # base64_encode rest"
    by (simp add: n_def Let_def)
  have "base64_decode (base64_encode (a # b # c # rest)) =
      Some ([of_nat ((x * 262144 + y * 4096 + z * 64 + w) div 65536 mod 256),
             of_nat ((x * 262144 + y * 4096 + z * 64 + w) div 256 mod 256),
             of_nat ((x * 262144 + y * 4096 + z * 64 + w) mod 256)] @ rest)"
    unfolding enc
    by (rule decode_group)
      (simp_all only: sextet_of_sextet sextet_not_special x_def y_def z_def w_def
         not_False_eq_True assms)
  also have "\<dots> = Some (a # b # c # rest)"
    unfolding sum using bytes(1-3) by (simp add: n_def)
  finally show ?thesis .
qed

lemma base64_encode_one:
  fixes a :: byte
  shows "base64_decode (base64_encode [a]) = Some [a]"
proof -
  define n where "n = unat a * 65536"
  have enc: "base64_encode [a] = [sextet (n div 262144), sextet (n div 4096), CHR ''='', CHR ''='']"
    by (simp add: n_def Let_def)
  have "base64_decode (base64_encode [a]) =
      Some [of_nat ((n div 262144 mod 64 * 64 + n div 4096 mod 64) div 16 mod 256)]"
    unfolding enc by (simp add: sextet_of_sextet)
  also have "\<dots> = Some [a]"
    unfolding n_def by (simp only: one_byte [OF unat_byte [of a]] of_nat_unat_byte)
  finally show ?thesis .
qed

lemma base64_encode_two:
  fixes a b :: byte
  shows "base64_decode (base64_encode [a, b]) = Some [a, b]"
proof -
  define n where "n = unat a * 65536 + unat b * 256"
  define m where "m = n div 262144 mod 64 * 4096 + n div 4096 mod 64 * 64 + n div 64 mod 64"
  have enc: "base64_encode [a, b] =
      [sextet (n div 262144), sextet (n div 4096), sextet (n div 64), CHR ''='']"
    by (simp add: n_def Let_def)
  have "base64_decode (base64_encode [a, b]) =
      Some [of_nat (m div 1024 mod 256), of_nat (m div 4 mod 256)]"
    unfolding enc m_def by (simp add: sextet_of_sextet sextet_not_special)
  also have "\<dots> = Some [a, b]"
    by (simp only: two_bytes [OF unat_byte [of a] unat_byte [of b] n_def m_def]
        of_nat_unat_byte)
  finally show ?thesis .
qed

lemma base64_roundtrip: "base64_decode (base64_encode bs) = Some bs"
proof (induction bs rule: base64_encode.induct)
  case 1
  show ?case by simp
next
  case (2 a)
  show ?case by (rule base64_encode_one)
next
  case (3 a b)
  show ?case by (rule base64_encode_two)
next
  case (4 a b c rest)
  then show ?case by (rule base64_encode_three)
qed

lemma base64_encode_chars: "CHR '':'' \<notin> set (base64_encode bs)"
  by (induction bs rule: base64_encode.induct) (simp_all add: Let_def sextet_not_special [symmetric])

lemma base64_encode_empty: "base64_encode bs = [] \<longleftrightarrow> bs = []"
  by (induction bs rule: base64_encode.induct) (simp_all add: Let_def)

lemma base64_codec_ok: "codec_ok test_env bs"
  by (simp add: codec_ok_def test_env_def base64_roundtrip base64_encode_chars
      base64_encode_empty)

lemma test_codec_iv: "codec_ok test_env testIv"
  by (simp add: codec_ok_def test_env_def testIv_def sextet_def sextet_of_def base64_alphabet_def)

lemma test_codec_sealed: "codec_ok test_env ([145, 1] @ test_tag)"
  by (simp add: codec_ok_def test_env_def test_tag_def sextet_def sextet_of_def base64_alphabet_def)

text \<open>
  C6.  Decrypting what \<^verbatim>\<open>encrypt\<close> produced, under the same key, returns the plain text:
  for every key, every plain text and every non-empty initialisation vector (the 12
  random bytes, or the pinned one), provided the external primitives do their part on
  these values: AES-GCM opens under (key, iv) what it sealed, its output (which carries
  the tag) is not empty, and the base64 codec handles the initialisation vector and the
  sealed text.
\<close>

theorem decrypt_encrypt_roundtrip:
  assumes iv: "iv = (case fixedIv of Some v \<Rightarrow> v | None \<Rightarrow> random)" and nonempty: "iv \<noteq> []"
    and seal: "aes_gcm_encrypt env key iv plain = Some sealed" and tag: "sealed \<noteq> []"
    and unseal: "aes_gcm_decrypt env key iv sealed = Some plain"
    and codec_iv: "codec_ok env iv" and codec_sealed: "codec_ok env sealed"
  shows "\<exists>envelope. encrypt env fixedIv random key plain = Inr envelope
           \<and> decrypt env key (Some (DStr envelope)) = Inr plain"
proof -
  have e: "encrypt env fixedIv random key plain =
      Inr (toBase64Polyfill env iv @ '':'' @ toBase64Polyfill env sealed)"
    using seal iv by (simp add: encrypt_def)
  have "decrypt env key (Some (DStr (toBase64Polyfill env iv @ '':'' @ toBase64Polyfill env sealed)))
        = Inr plain"
    using codec_iv codec_sealed nonempty tag unseal
    by (subst decrypt_envelope) (auto simp: codec_ok_def)
  with e show ?thesis by simp
qed

theorem decrypt_encrypt_roundtrip_witness:
  "testIv = (case None of Some v \<Rightarrow> v | None \<Rightarrow> testIv) \<and> testIv \<noteq> []
   \<and> aes_gcm_encrypt test_env ''encryption_key_here'' testIv [145, 1] = Some ([145, 1] @ test_tag)
   \<and> [145, 1] @ test_tag \<noteq> []
   \<and> aes_gcm_decrypt test_env ''encryption_key_here'' testIv ([145, 1] @ test_tag) = Some [145, 1]
   \<and> codec_ok test_env testIv \<and> codec_ok test_env ([145, 1] @ test_tag)
   \<and> (\<exists>envelope. encrypt test_env None testIv ''encryption_key_here'' [145, 1] = Inr envelope
           \<and> decrypt test_env ''encryption_key_here'' (Some (DStr envelope)) = Inr [145, 1])"
proof -
  have a: "testIv = (case (None :: byte list option) of Some v \<Rightarrow> v | None \<Rightarrow> testIv)" by simp
  have b: "testIv \<noteq> []" by (simp add: testIv_def)
  have c: "aes_gcm_encrypt test_env ''encryption_key_here'' testIv [145, 1] = Some ([145, 1] @ test_tag)"
    by (simp add: test_env_def)
  have d: "[145, 1] @ test_tag \<noteq> []" by simp
  have e: "aes_gcm_decrypt test_env ''encryption_key_here'' testIv ([145, 1] @ test_tag) = Some [145, 1]"
    by (simp add: test_env_def test_tag_def)
  from decrypt_encrypt_roundtrip [OF a b c d e test_codec_iv test_codec_sealed]
    a b c d e test_codec_iv test_codec_sealed
  show ?thesis by (intro conjI)
qed

section \<open>Deleting a job\<close>

lemma deleteJob_sent:
  "snd (deleteJob fetch api_key (VStr s)) =
     (if s = [] \<or> \<not> is_well_formed s then []
      else [\<lparr>url = ''https://clocktick.dev/api/v1/jobs/'' @ uri_escape s,
              http_method = ''DELETE'',
              headers = [(''Authorization'', ''Bearer '' @ api_key)],
              request_body = None\<rparr>])"
  by (simp add: deleteJob_def encodeURIComponent_def errorHandledFetch_def Let_def
      split: sum.splits prod.splits option.splits data.splits)

text \<open>
  C9.  \<^verbatim>\<open>deleteJob\<close> with the empty string fails with \<^verbatim>\<open>Error("Invalid job ID.")\<close> and hands
  no request to \<^verbatim>\<open>fetch\<close>.  With a non-empty identifier that is well formed it hands
  \<^verbatim>\<open>fetch\<close> exactly one request, a DELETE of the jobs URL followed by the URL-encoded
  identifier, whatever the response.  With a non-empty identifier that holds an unpaired
  surrogate, \<^verbatim>\<open>encodeURIComponent\<close> raises \<^verbatim>\<open>URIError\<close> and no request is made.
\<close>

theorem deleteJob_requests:
  "deleteJob fetch api_key (VStr []) = (Inl (Error ''Invalid job ID.''), [])
   \<and> (s \<noteq> [] \<and> is_well_formed s \<longrightarrow>
        encodeURIComponent s = Inr (uri_escape s)
        \<and> snd (deleteJob fetch api_key (VStr s)) =
          [\<lparr>url = ''https://clocktick.dev/api/v1/jobs/'' @ uri_escape s,
            http_method = ''DELETE'',
            headers = [(''Authorization'', ''Bearer '' @ api_key)],
            request_body = None\<rparr>])
   \<and> (s \<noteq> [] \<and> \<not> is_well_formed s \<longrightarrow>
        deleteJob fetch api_key (VStr s) = (Inl URIError, []))"
  by (simp add: deleteJob_sent) (simp add: deleteJob_def encodeURIComponent_def)

theorem deleteJob_requests_witness:
  "''%%%&@'' \<noteq> [] \<and> is_well_formed ''%%%&@''
   \<and> encodeURIComponent ''%%%&@'' = Inr ''%25%25%25%26%40''
   \<and> snd (deleteJob test_network ''key'' (VStr ''%%%&@'')) =
       [\<lparr>url = ''https://clocktick.dev/api/v1/jobs/%25%25%25%26%40'', http_method = ''DELETE'',
         headers = [(''Authorization'', ''Bearer key'')], request_body = None\<rparr>]"
proof -
  have n: "''%%%&@'' \<noteq> []" by simp
  have w: "is_well_formed ''%%%&@''"
    by (simp add: is_well_formed_def is_surrogate_def is_continuation_def)
  have u: "uri_escape ''%%%&@'' = ''%25%25%25%26%40''"
    by (simp add: uri_escape_def uri_unreserved_def hex_digit_def)
  from deleteJob_requests [of test_network "''key''" "''%%%&@''"] n w u
  show ?thesis by simp
qed

text \<open>
  The identifier \<^verbatim>\<open>"\uD800"\<close>, a single unpaired surrogate, is a non-empty string for
  which no request is made: the property does not hold of every non-empty string.
\<close>

theorem deleteJob_lone_surrogate:
  "[CHR 0xED, CHR 0xA0, CHR 0x80] \<noteq> []
   \<and> \<not> is_well_formed [CHR 0xED, CHR 0xA0, CHR 0x80]
   \<and> deleteJob test_network ''key'' (VStr [CHR 0xED, CHR 0xA0, CHR 0x80]) = (Inl URIError, [])"
  by (simp add: deleteJob_def encodeURIComponent_def is_well_formed_def is_surrogate_def
      is_continuation_def)

section \<open>Scheduling a job leaves the job properties alone\<close>

lemma toObject_fresh:
  "CreateJobProperties_toObject h this =
     (Suc (length h),
      h @ [[(''start_from'', get_prop h this ''startFrom''),
            (''run_every'', get_prop h this ''runEvery'')],
           [(''id'', get_prop h this ''#customId''), (''data'', VRef (length h))]])"
  by (simp add: CreateJobProperties_toObject_def alloc_def)

lemma get_prop_append: "a < length h \<Longrightarrow> get_prop (h @ ext) a key = get_prop h a key"
  by (simp add: get_prop_def nth_append)

lemma those_map_mono:
  assumes "those (map f xs) = Some ys"
    and "\<And>x y. x \<in> set xs \<Longrightarrow> f x = Some y \<Longrightarrow> g x = Some y"
  shows "those (map g xs) = Some ys"
  using assms
proof (induction xs arbitrary: ys)
  case Nil
  then show ?case by simp
next
  case (Cons x xs)
  from Cons.prems(1) obtain y ys' where
    y: "f x = Some y" "those (map f xs) = Some ys'" "ys = y # ys'"
    by (auto split: option.splits)
  have "g x = Some y" using Cons.prems(2) y(1) by simp
  moreover have "those (map g xs) = Some ys'"
    using Cons.IH [OF y(2)] Cons.prems(2) by simp
  ultimately show ?case using y(3) by simp
qed

lemma to_data_mono:
  "to_data n h v = Some d \<Longrightarrow> n \<le> m \<Longrightarrow> to_data m (h @ ext) v = Some d"
proof (induction n arbitrary: m v d)
  case 0
  then show ?case by (cases v) auto
next
  case (Suc n)
  show ?case
  proof (cases v)
    case (VRef a)
    from Suc.prems(2) obtain m' where m: "m = Suc m'" "n \<le> m'"
      by (cases m) auto
    from Suc.prems(1) VRef have a: "a < length h"
      by (auto split: if_splits)
    from Suc.prems(1) VRef a obtain ps where
      ps: "those (map (\<lambda>(k, v). map_option (Pair k) (to_data n h v))
                   (filter (\<lambda>(k, v). v \<noteq> VUndefined) (h ! a))) = Some ps"
          "d = DObj ps"
      by auto
    have "those (map (\<lambda>(k, v). map_option (Pair k) (to_data m' (h @ ext) v))
                   (filter (\<lambda>(k, v). v \<noteq> VUndefined) (h ! a))) = Some ps"
      using ps(1)
    proof (rule those_map_mono)
      fix x :: "string \<times> jsval" and y :: "string \<times> data"
      assume eq: "(case x of (k, v) \<Rightarrow> map_option (Pair k) (to_data n h v)) = Some y"
      obtain k w where x: "x = (k, w)" by (cases x)
      from eq x obtain d' where d': "to_data n h w = Some d'" "y = (k, d')"
        by auto
      from Suc.IH [OF d'(1) m(2)] x d'(2)
      show "(case x of (k, v) \<Rightarrow> map_option (Pair k) (to_data m' (h @ ext) v)) = Some y"
        by simp
    qed
    with VRef a m ps(2) show ?thesis by (simp add: nth_append)
  qed (use Suc.prems in auto)
qed


lemma errorHandledFetch_sent:
  "snd (errorHandledFetch fetch H target api_key meth (Some b)) =
     (case JSON_stringify H (VRef b) of
        None \<Rightarrow> []
      | Some written \<Rightarrow>
          [\<lparr>url = target, http_method = meth,
            headers = [(''Authorization'', ''Bearer '' @ api_key),
                       (''Content-Type'', ''application/json'')],
            request_body = Some written\<rparr>])"
  by (simp add: errorHandledFetch_def Let_def split: option.splits sum.splits data.splits)

lemma get_prop_outer:
  "get_prop (h @ [inner, outer]) (Suc (length h)) key =
     (case map_of outer key of Some v \<Rightarrow> v | None \<Rightarrow> VUndefined)"
  by (simp add: get_prop_def nth_append)

lemma set_prop_inner:
  "set_prop (h @ [inner, outer]) (length h) key v = h @ [AList.update key v inner, outer]"
  by (simp add: set_prop_def nth_append list_update_append)

lemma submit_url_fails:
  assumes "job_url (get_prop h props ''#customId'') = Inl e"
  shows "apiHandlerBuilder env fetch fixedIv api_key key jobType endpoint h random props args =
     ((Inl e, []),
      h @ [[(''start_from'', get_prop h props ''startFrom''),
            (''run_every'', get_prop h props ''runEvery'')],
           [(''id'', get_prop h props ''#customId''), (''data'', VRef (length h))]])"
  using assms by (simp add: apiHandlerBuilder_def toObject_fresh get_prop_outer)

lemma submit_unfold:
  assumes target: "job_url (get_prop h props ''#customId'') = Inr target"
  shows
  "apiHandlerBuilder env fetch fixedIv api_key key jobType endpoint h random props args =
     (case encrypt env fixedIv random key (encode env args) of
        Inl e \<Rightarrow>
          ((Inl e, []),
           h @ [[(''start_from'', get_prop h props ''startFrom''),
                 (''run_every'', get_prop h props ''runEvery''),
                 (''endpoint_id'', VStr endpoint)],
                [(''id'', get_prop h props ''#customId''), (''data'', VRef (length h))]])
      | Inr encrypted \<Rightarrow>
          (case errorHandledFetch fetch
                  (h @ [[(''start_from'', get_prop h props ''startFrom''),
                         (''run_every'', get_prop h props ''runEvery''),
                         (''endpoint_id'', VStr endpoint),
                         (''encrypted_data'', VStr encrypted),
                         (''job_type'', VStr jobType)],
                        [(''id'', get_prop h props ''#customId''), (''data'', VRef (length h))]])
                  target api_key ''POST'' (Some (length h)) of
             (Inl e, sent) \<Rightarrow>
               ((Inl e, sent),
                h @ [[(''start_from'', get_prop h props ''startFrom''),
                      (''run_every'', get_prop h props ''runEvery''),
                      (''endpoint_id'', VStr endpoint),
                      (''encrypted_data'', VStr encrypted),
                      (''job_type'', VStr jobType)],
                     [(''id'', get_prop h props ''#customId''), (''data'', VRef (length h))]])
           | (Inr res, sent) \<Rightarrow>
               (case json res of
                  None \<Rightarrow>
                    ((Inl SyntaxError, sent),
                     h @ [[(''start_from'', get_prop h props ''startFrom''),
                           (''run_every'', get_prop h props ''runEvery''),
                           (''endpoint_id'', VStr endpoint),
                           (''encrypted_data'', VStr encrypted),
                           (''job_type'', VStr jobType)],
                          [(''id'', get_prop h props ''#customId''), (''data'', VRef (length h))]])
                | Some v \<Rightarrow>
                    ((Inr v, sent),
                     h @ [[(''start_from'', get_prop h props ''startFrom''),
                           (''run_every'', get_prop h props ''runEvery''),
                           (''endpoint_id'', VStr endpoint),
                           (''encrypted_data'', VStr encrypted),
                           (''job_type'', VStr jobType)],
                          [(''id'', get_prop h props ''#customId''), (''data'', VRef (length h))]]))))"
proof (cases "encrypt env fixedIv random key (encode env args)")
  case (Inl e)
  with target show ?thesis
    by (simp add: apiHandlerBuilder_def toObject_fresh get_prop_outer set_prop_inner Let_def)
next
  case (Inr encrypted)
  with target show ?thesis
    by (simp add: apiHandlerBuilder_def toObject_fresh get_prop_outer set_prop_inner Let_def
        cong: prod.case_cong sum.case_cong option.case_cong)
qed

lemma submit_store:
  "\<exists>fresh. snd (apiHandlerBuilder env fetch fixedIv api_key key jobType endpoint h random props args)
       = h @ fresh"
proof (cases "job_url (get_prop h props ''#customId'')")
  case (Inl e)
  then show ?thesis by (simp add: submit_url_fails)
next
  case (Inr target)
  show ?thesis
    unfolding submit_unfold [OF Inr]
    by (simp split: sum.splits prod.splits option.splits)
qed

lemma stringify_payload:
  "JSON_stringify (h @ [inner, outer]) (VRef (length h)) =
     map_option DObj
       (those (map (\<lambda>(k, v). map_option (Pair k) (to_data (Suc (Suc (length h))) (h @ [inner, outer]) v))
                (filter (\<lambda>(k, v). v \<noteq> VUndefined) inner)))"
  by (simp add: JSON_stringify_def)

lemma payload_those:
  "those (map (\<lambda>(k, v). map_option (Pair k) (f v))
             (filter (\<lambda>(k, v). v \<noteq> VUndefined)
                [(k1, sf), (k2, re), (k3, VStr a), (k4, VStr b), (k5, VStr c)])) =
   (case (if sf = VUndefined then Some [] else map_option (\<lambda>d. [(k1, d)]) (f sf)) of
      None \<Rightarrow> None
    | Some p1 \<Rightarrow>
        (case (if re = VUndefined then Some [] else map_option (\<lambda>d. [(k2, d)]) (f re)) of
           None \<Rightarrow> None
         | Some p2 \<Rightarrow>
             (case f (VStr a) of
                None \<Rightarrow> None
              | Some da \<Rightarrow>
                  (case f (VStr b) of
                     None \<Rightarrow> None
                   | Some db \<Rightarrow>
                       (case f (VStr c) of
                          None \<Rightarrow> None
                        | Some dc \<Rightarrow> Some (p1 @ p2 @ [(k3, da), (k4, db), (k5, dc)]))))))"
proof -
  have tail: "those (map (\<lambda>(k, v). map_option (Pair k) (f v))
                 [(k3, VStr a), (k4, VStr b), (k5, VStr c)]) =
      (case f (VStr a) of
         None \<Rightarrow> None
       | Some da \<Rightarrow>
           (case f (VStr b) of
              None \<Rightarrow> None
            | Some db \<Rightarrow>
                (case f (VStr c) of
                   None \<Rightarrow> None
                 | Some dc \<Rightarrow> Some [(k3, da), (k4, db), (k5, dc)])))"
    by (simp split: option.splits)
  show ?thesis
  proof (cases "sf = VUndefined")
    case True
    note sf = this
    show ?thesis
    proof (cases "re = VUndefined")
      case True
      with sf tail show ?thesis by (simp split: option.splits)
    next
      case False
      with sf tail show ?thesis by (cases "f re") (simp_all split: option.splits)
    qed
  next
    case False
    note sf = this
    show ?thesis
    proof (cases "re = VUndefined")
      case True
      with sf tail show ?thesis by (cases "f sf") (simp_all split: option.splits)
    next
      case False
      with sf tail show ?thesis
        by (cases "f sf"; cases "f re") (simp_all split: option.splits)
    qed
  qed
qed


lemma submit_encrypt_fails:
  assumes "encrypt env fixedIv random key (encode env args) = Inl e"
  shows "snd (fst (apiHandlerBuilder env fetch fixedIv api_key key jobType endpoint h random props args)) = []"
proof (cases "job_url (get_prop h props ''#customId'')")
  case (Inl e')
  then show ?thesis by (simp add: submit_url_fails)
next
  case (Inr target)
  show ?thesis unfolding submit_unfold [OF Inr] using assms by simp
qed

lemma submit_sent:
  assumes target: "job_url (get_prop h props ''#customId'') = Inr target"
    and "encrypt env fixedIv random key (encode env args) = Inr encrypted"
  shows "snd (fst (apiHandlerBuilder env fetch fixedIv api_key key jobType endpoint h random props args)) =
     (case those (map (\<lambda>(k, v). map_option (Pair k)
                     (to_data (Suc (Suc (length h)))
                        (h @ [[(''start_from'', get_prop h props ''startFrom''),
                               (''run_every'', get_prop h props ''runEvery''),
                               (''endpoint_id'', VStr endpoint),
                               (''encrypted_data'', VStr encrypted),
                               (''job_type'', VStr jobType)],
                              [(''id'', get_prop h props ''#customId''), (''data'', VRef (length h))]]) v))
                (filter (\<lambda>(k, v). v \<noteq> VUndefined)
                   [(''start_from'', get_prop h props ''startFrom''),
                    (''run_every'', get_prop h props ''runEvery''),
                    (''endpoint_id'', VStr endpoint),
                    (''encrypted_data'', VStr encrypted),
                    (''job_type'', VStr jobType)])) of
        None \<Rightarrow> []
      | Some ps \<Rightarrow>
          [\<lparr>url = target, http_method = ''POST'',
            headers = [(''Authorization'', ''Bearer '' @ api_key),
                       (''Content-Type'', ''application/json'')],
            request_body = Some (DObj ps)\<rparr>])"
proof -
  have "snd (fst (apiHandlerBuilder env fetch fixedIv api_key key jobType endpoint h random props args)) =
      snd (errorHandledFetch fetch
             (h @ [[(''start_from'', get_prop h props ''startFrom''),
                    (''run_every'', get_prop h props ''runEvery''),
                    (''endpoint_id'', VStr endpoint),
                    (''encrypted_data'', VStr encrypted),
                    (''job_type'', VStr jobType)],
                   [(''id'', get_prop h props ''#customId''), (''data'', VRef (length h))]])
             target api_key ''POST'' (Some (length h)))"
    unfolding submit_unfold [OF target] using assms(2)
    by (simp split: prod.splits sum.splits option.splits)
  then show ?thesis
    unfolding errorHandledFetch_sent stringify_payload
    by (simp split: option.splits)
qed


lemma to_data_string: "to_data n h (VStr s) = Some (DStr s)"
  by simp

lemma submit_twice:
  assumes props: "props < length h"
    and first: "snd (fst (apiHandlerBuilder env fetch fixedIv api_key key jobType endpoint h random
                    props args)) = [rq1]"
    and enc2: "encrypt env fixedIv' random' key (encode env args') = Inr encrypted'"
  shows "\<exists>rq2 b1 b2.
          snd (fst (apiHandlerBuilder env fetch' fixedIv' api_key key jobType' endpoint'
                 (snd (apiHandlerBuilder env fetch fixedIv api_key key jobType endpoint h random
                         props args) @ later)
                 random' props args')) = [rq2]
          \<and> url rq2 = url rq1
          \<and> request_body rq1 = Some b1 \<and> request_body rq2 = Some b2
          \<and> get_property b2 ''start_from'' = get_property b1 ''start_from''
          \<and> get_property b2 ''run_every'' = get_property b1 ''run_every''"
proof -
  define sf where "sf = get_prop h props ''startFrom''"
  define re where "re = get_prop h props ''runEvery''"
  define cid where "cid = get_prop h props ''#customId''"
  obtain target where target: "job_url cid = Inr target"
    using first submit_url_fails [of h props _ env fetch fixedIv api_key key jobType endpoint random args]
    by (cases "job_url cid") (auto simp: cid_def)
  obtain encrypted where enc1: "encrypt env fixedIv random key (encode env args) = Inr encrypted"
    using first submit_encrypt_fails [of env fixedIv random key args _ fetch api_key jobType endpoint h props]
    by (cases "encrypt env fixedIv random key (encode env args)") auto
  define H1 where "H1 = h @ [[(''start_from'', sf), (''run_every'', re),
      (''endpoint_id'', VStr endpoint), (''encrypted_data'', VStr encrypted),
      (''job_type'', VStr jobType)], [(''id'', cid), (''data'', VRef (length h))]]"
  define f1 where "f1 = to_data (Suc (Suc (length h))) H1"
  have store1: "snd (apiHandlerBuilder env fetch fixedIv api_key key jobType endpoint h random
      props args) = H1"
    unfolding submit_unfold [OF target [unfolded cid_def]] using enc1
    by (simp add: H1_def sf_def re_def cid_def split: prod.splits sum.splits option.splits)
  define h2 where "h2 = H1 @ later"
  have h2: "h2 = h @ (drop (length h) H1 @ later)"
    by (simp add: h2_def H1_def)
  have g2: "get_prop h2 props ''startFrom'' = sf" "get_prop h2 props ''runEvery'' = re"
    "get_prop h2 props ''#customId'' = cid"
    unfolding h2 using props by (simp_all add: get_prop_append sf_def re_def cid_def)
  have target2: "job_url (get_prop h2 props ''#customId'') = Inr target"
    by (simp only: g2 target)
  define H2 where "H2 = h2 @ [[(''start_from'', sf), (''run_every'', re),
      (''endpoint_id'', VStr endpoint'), (''encrypted_data'', VStr encrypted'),
      (''job_type'', VStr jobType')], [(''id'', cid), (''data'', VRef (length h2))]]"
  define f2 where "f2 = to_data (Suc (Suc (length h2))) H2"
  have mono: "\<And>v d. f1 v = Some d \<Longrightarrow> f2 v = Some d"
  proof -
    fix v d assume "f1 v = Some d"
    then have "to_data (Suc (Suc (length h))) H1 v = Some d" by (simp add: f1_def)
    moreover have "Suc (Suc (length h)) \<le> Suc (Suc (length h2))"
      by (simp add: h2_def H1_def)
    ultimately have "to_data (Suc (Suc (length h2)))
        (H1 @ (later @ drop (length h2) H2)) v = Some d"
      by (rule to_data_mono)
    moreover have "H1 @ (later @ drop (length h2) H2) = H2"
      by (simp add: H2_def h2_def)
    ultimately show "f2 v = Some d" by (simp add: f2_def)
  qed
  have sent1: "[rq1] =
      (case those (map (\<lambda>(k, v). map_option (Pair k) (f1 v))
                (filter (\<lambda>(k, v). v \<noteq> VUndefined)
                   [(''start_from'', sf), (''run_every'', re), (''endpoint_id'', VStr endpoint),
                    (''encrypted_data'', VStr encrypted), (''job_type'', VStr jobType)])) of
        None \<Rightarrow> []
      | Some ps \<Rightarrow>
          [\<lparr>url = target, http_method = ''POST'',
            headers = [(''Authorization'', ''Bearer '' @ api_key),
                       (''Content-Type'', ''application/json'')],
            request_body = Some (DObj ps)\<rparr>])"
    using first unfolding submit_sent [OF target [unfolded cid_def] enc1] f1_def H1_def sf_def re_def cid_def
    by simp
  have sent2: "snd (fst (apiHandlerBuilder env fetch' fixedIv' api_key key jobType' endpoint' h2
      random' props args')) =
      (case those (map (\<lambda>(k, v). map_option (Pair k) (f2 v))
                (filter (\<lambda>(k, v). v \<noteq> VUndefined)
                   [(''start_from'', sf), (''run_every'', re), (''endpoint_id'', VStr endpoint'),
                    (''encrypted_data'', VStr encrypted'), (''job_type'', VStr jobType')])) of
        None \<Rightarrow> []
      | Some ps \<Rightarrow>
          [\<lparr>url = target, http_method = ''POST'',
            headers = [(''Authorization'', ''Bearer '' @ api_key),
                       (''Content-Type'', ''application/json'')],
            request_body = Some (DObj ps)\<rparr>])"
    unfolding submit_sent [OF target2 enc2] f2_def H2_def g2 by simp
  have str1: "\<And>s. f1 (VStr s) = Some (DStr s)" by (simp add: f1_def)
  have str2: "\<And>s. f2 (VStr s) = Some (DStr s)" by (simp add: f2_def)
  obtain p1 where p1: "(if sf = VUndefined then Some [] else map_option (\<lambda>d. [(''start_from'', d)]) (f1 sf)) = Some p1"
    using sent1 unfolding payload_those str1 by (auto split: option.splits if_splits)
  obtain p2 where p2: "(if re = VUndefined then Some [] else map_option (\<lambda>d. [(''run_every'', d)]) (f1 re)) = Some p2"
    using sent1 unfolding payload_those str1 by (auto split: option.splits if_splits)
  have q1: "(if sf = VUndefined then Some [] else map_option (\<lambda>d. [(''start_from'', d)]) (f2 sf)) = Some p1"
    using p1 mono [of sf] by (auto split: if_splits)
  have q2: "(if re = VUndefined then Some [] else map_option (\<lambda>d. [(''run_every'', d)]) (f2 re)) = Some p2"
    using p2 mono [of re] by (auto split: if_splits)
  have rq1: "rq1 = \<lparr>url = target, http_method = ''POST'',
            headers = [(''Authorization'', ''Bearer '' @ api_key),
                       (''Content-Type'', ''application/json'')],
            request_body = Some (DObj (p1 @ p2 @ [(''endpoint_id'', DStr endpoint),
               (''encrypted_data'', DStr encrypted), (''job_type'', DStr jobType)]))\<rparr>"
    using sent1 unfolding payload_those str1 p1 p2 by simp
  have rq2: "snd (fst (apiHandlerBuilder env fetch' fixedIv' api_key key jobType' endpoint' h2
      random' props args')) = [\<lparr>url = target, http_method = ''POST'',
            headers = [(''Authorization'', ''Bearer '' @ api_key),
                       (''Content-Type'', ''application/json'')],
            request_body = Some (DObj (p1 @ p2 @ [(''endpoint_id'', DStr endpoint'),
               (''encrypted_data'', DStr encrypted'), (''job_type'', DStr jobType')]))\<rparr>]"
    unfolding sent2 payload_those str2 q1 q2 by simp
  have keys: "map_of (p1 @ p2 @ [(''endpoint_id'', DStr endpoint'),
               (''encrypted_data'', DStr encrypted'), (''job_type'', DStr jobType')]) ''start_from''
      = map_of (p1 @ p2 @ [(''endpoint_id'', DStr endpoint),
               (''encrypted_data'', DStr encrypted), (''job_type'', DStr jobType)]) ''start_from''"
    "map_of (p1 @ p2 @ [(''endpoint_id'', DStr endpoint'),
               (''encrypted_data'', DStr encrypted'), (''job_type'', DStr jobType')]) ''run_every''
      = map_of (p1 @ p2 @ [(''endpoint_id'', DStr endpoint),
               (''encrypted_data'', DStr encrypted), (''job_type'', DStr jobType)]) ''run_every''"
    by (simp_all add: map_add_def split: option.splits)
  show ?thesis
    unfolding store1 h2_def [symmetric] rq2 rq1 using keys by simp
qed

lemma test_store_eval:
  "test_store =
     [[(''type'', VStr ''datetime''), (''datetime'', VStr ''1970-01-01T00:00:00.000Z'')],
      [(''#customId'', VNull), (''startFrom'', VRef 0), (''runEvery'', VNull)]]"
  by (simp add: test_store_def fromDatetime_def new_CreateJobProperties_def alloc_def)

lemma test_encrypt:
  "encrypt test_env (Some testIv) [] ''encryption_key_here'' (encode test_env [DNum n]) =
     Inr (base64_encode testIv @ '':'' @ base64_encode ([145, word_of_int \<lfloor>n\<rfloor>] @ test_tag))"
  by (simp add: encrypt_def test_env_def test_encode_def)


lemma test_url:
  "job_url (get_prop test_store 1 ''#customId'') = Inr ''https://clocktick.dev/api/v1/jobs''"
  by (simp add: test_store_eval get_prop_def job_url_def)

lemma test_first_call:
  "snd (fst (apiHandlerBuilder test_env test_network (Some testIv) ''key'' ''encryption_key_here''
               ''test1'' ''default_endpoint_id'' test_store [] 1 [DNum 1])) =
     [\<lparr>url = ''https://clocktick.dev/api/v1/jobs'', http_method = ''POST'',
       headers = [(''Authorization'', ''Bearer key''), (''Content-Type'', ''application/json'')],
       request_body =
         Some (DObj [(''start_from'',
                      DObj [(''type'', DStr ''datetime''),
                            (''datetime'', DStr ''1970-01-01T00:00:00.000Z'')]),
                     (''run_every'', DNull),
                     (''endpoint_id'', DStr ''default_endpoint_id''),
                     (''encrypted_data'', DStr ''AQIDBAUGBwgJCgsM:kQEAAAAAAAAAAAAAAAAAAAAA''),
                     (''job_type'', DStr ''test1'')])\<rparr>]"
  by (subst submit_sent [OF test_url test_encrypt])
    (simp add: test_store_eval get_prop_def testIv_def test_tag_def sextet_def base64_alphabet_def)

text \<open>
  C10.  A scheduling call changes no object that existed before it: the store afterwards
  is the store before with fresh objects appended (the two object literals of
  \<^verbatim>\<open>toObject\<close>, the inner one then carrying \<open>endpoint_id\<close>, \<open>encrypted_data\<close> and
  \<open>job_type\<close>).  Hence the same job properties can be used again: if a call for the
  properties \<open>props\<close> sent a request, then any later scheduling call for \<open>props\<close> (another
  route, other arguments, further objects allocated in between) whose encryption
  succeeds sends a request with the same URL (the same id) and the same \<open>start_from\<close>
  and \<open>run_every\<close>.
\<close>

theorem submit_does_not_mutate_props:
  "(\<exists>fresh. snd (apiHandlerBuilder env fetch fixedIv api_key key jobType endpoint h random props args)
       = h @ fresh)
   \<and> (props < length h
        \<and> snd (fst (apiHandlerBuilder env fetch fixedIv api_key key jobType endpoint h random
                     props args)) = [rq1]
        \<and> encrypt env fixedIv' random' key (encode env args') = Inr encrypted'
      \<longrightarrow> (\<exists>rq2 b1 b2.
            snd (fst (apiHandlerBuilder env fetch' fixedIv' api_key key jobType' endpoint'
                   (snd (apiHandlerBuilder env fetch fixedIv api_key key jobType endpoint h random
                           props args) @ later)
                   random' props args')) = [rq2]
            \<and> url rq2 = url rq1
            \<and> request_body rq1 = Some b1 \<and> request_body rq2 = Some b2
            \<and> get_property b2 ''start_from'' = get_property b1 ''start_from''
            \<and> get_property b2 ''run_every'' = get_property b1 ''run_every''))"
proof (intro conjI impI)
  show "\<exists>fresh. snd (apiHandlerBuilder env fetch fixedIv api_key key jobType endpoint h random
      props args) = h @ fresh"
    by (rule submit_store)
next
  assume a: "props < length h
        \<and> snd (fst (apiHandlerBuilder env fetch fixedIv api_key key jobType endpoint h random
                     props args)) = [rq1]
        \<and> encrypt env fixedIv' random' key (encode env args') = Inr encrypted'"
  then have "props < length h"
    and "snd (fst (apiHandlerBuilder env fetch fixedIv api_key key jobType endpoint h random
                     props args)) = [rq1]"
    and "encrypt env fixedIv' random' key (encode env args') = Inr encrypted'"
    by simp_all
  then show "\<exists>rq2 b1 b2.
            snd (fst (apiHandlerBuilder env fetch' fixedIv' api_key key jobType' endpoint'
                   (snd (apiHandlerBuilder env fetch fixedIv api_key key jobType endpoint h random
                           props args) @ later)
                   random' props args')) = [rq2]
            \<and> url rq2 = url rq1
            \<and> request_body rq1 = Some b1 \<and> request_body rq2 = Some b2
            \<and> get_property b2 ''start_from'' = get_property b1 ''start_from''
            \<and> get_property b2 ''run_every'' = get_property b1 ''run_every''"
    by (rule submit_twice)
qed

theorem submit_does_not_mutate_props_witness:
  "(1 :: nat) < length test_store
   \<and> encrypt test_env (Some testIv) [] ''encryption_key_here'' (encode test_env [DNum 2]) =
       Inr (base64_encode testIv @ '':'' @ base64_encode ([145, 2] @ test_tag))
   \<and> (\<exists>rq2 b2.
          snd (fst (apiHandlerBuilder test_env test_network (Some testIv) ''key''
                 ''encryption_key_here'' ''test2'' ''other_endpoint''
                 (snd (apiHandlerBuilder test_env test_network (Some testIv) ''key''
                         ''encryption_key_here'' ''test1'' ''default_endpoint_id'' test_store [] 1
                         [DNum 1]) @ [])
                 [] 1 [DNum 2])) = [rq2]
          \<and> url rq2 = ''https://clocktick.dev/api/v1/jobs''
          \<and> request_body rq2 = Some b2
          \<and> get_property b2 ''start_from'' =
              Some (DObj [(''type'', DStr ''datetime''),
                          (''datetime'', DStr ''1970-01-01T00:00:00.000Z'')])
          \<and> get_property b2 ''run_every'' = Some DNull)"
proof -
  define rq1 where "rq1 =
     \<lparr>url = ''https://clocktick.dev/api/v1/jobs'', http_method = ''POST'',
       headers = [(''Authorization'', ''Bearer key''), (''Content-Type'', ''application/json'')],
       request_body =
         Some (DObj [(''start_from'',
                      DObj [(''type'', DStr ''datetime''),
                            (''datetime'', DStr ''1970-01-01T00:00:00.000Z'')]),
                     (''run_every'', DNull),
                     (''endpoint_id'', DStr ''default_endpoint_id''),
                     (''encrypted_data'', DStr ''AQIDBAUGBwgJCgsM:kQEAAAAAAAAAAAAAAAAAAAAA''),
                     (''job_type'', DStr ''test1'')])\<rparr>"
  have p: "(1 :: nat) < length test_store" by (simp add: test_store_eval)
  have e: "encrypt test_env (Some testIv) [] ''encryption_key_here'' (encode test_env [DNum 2]) =
       Inr (base64_encode testIv @ '':'' @ base64_encode ([145, 2] @ test_tag))"
    using test_encrypt [of 2] by simp
  have f: "snd (fst (apiHandlerBuilder test_env test_network (Some testIv) ''key''
      ''encryption_key_here'' ''test1'' ''default_endpoint_id'' test_store [] 1 [DNum 1])) = [rq1]"
    unfolding rq1_def by (rule test_first_call)
  have "\<exists>rq2 b1 b2.
          snd (fst (apiHandlerBuilder test_env test_network (Some testIv) ''key''
                 ''encryption_key_here'' ''test2'' ''other_endpoint''
                 (snd (apiHandlerBuilder test_env test_network (Some testIv) ''key''
                         ''encryption_key_here'' ''test1'' ''default_endpoint_id'' test_store [] 1
                         [DNum 1]) @ [])
                 [] 1 [DNum 2])) = [rq2]
          \<and> url rq2 = url rq1
          \<and> request_body rq1 = Some b1 \<and> request_body rq2 = Some b2
          \<and> get_property b2 ''start_from'' = get_property b1 ''start_from''
          \<and> get_property b2 ''run_every'' = get_property b1 ''run_every''"
    using submit_does_not_mutate_props [of test_env test_network "Some testIv" "''key''"
      "''encryption_key_here''" "''test1''" "''default_endpoint_id''" test_store "[]" 1 "[DNum 1]"
      rq1 "Some testIv" "[]" "[DNum 2]"
      "base64_encode testIv @ '':'' @ base64_encode ([145, 2] @ test_tag)"
      test_network "''test2''" "''other_endpoint''" "[]"]
      p e f
    by (elim conjE impE) (intro conjI, assumption+)
  then obtain rq2 b1 b2 where r:
    "snd (fst (apiHandlerBuilder test_env test_network (Some testIv) ''key''
                 ''encryption_key_here'' ''test2'' ''other_endpoint''
                 (snd (apiHandlerBuilder test_env test_network (Some testIv) ''key''
                         ''encryption_key_here'' ''test1'' ''default_endpoint_id'' test_store [] 1
                         [DNum 1]) @ [])
                 [] 1 [DNum 2])) = [rq2]"
    "url rq2 = url rq1" "request_body rq1 = Some b1" "request_body rq2 = Some b2"
    "get_property b2 ''start_from'' = get_property b1 ''start_from''"
    "get_property b2 ''run_every'' = get_property b1 ''run_every''"
    by blast
  from r(3) have b1: "b1 = DObj [(''start_from'',
                      DObj [(''type'', DStr ''datetime''),
                            (''datetime'', DStr ''1970-01-01T00:00:00.000Z'')]),
                     (''run_every'', DNull),
                     (''endpoint_id'', DStr ''default_endpoint_id''),
                     (''encrypted_data'', DStr ''AQIDBAUGBwgJCgsM:kQEAAAAAAAAAAAAAAAAAAAAA''),
                     (''job_type'', DStr ''test1'')]"
    by (simp add: rq1_def)
  have u: "url rq2 = ''https://clocktick.dev/api/v1/jobs''"
    using r(2) by (simp add: rq1_def)
  have s1: "get_property b2 ''start_from'' =
              Some (DObj [(''type'', DStr ''datetime''),
                          (''datetime'', DStr ''1970-01-01T00:00:00.000Z'')])"
    using r(5) by (simp add: b1)
  have s2: "get_property b2 ''run_every'' = Some DNull"
    using r(6) by (simp add: b1)
  from r(1) r(4) u s1 s2 have "\<exists>rq2 b2.
          snd (fst (apiHandlerBuilder test_env test_network (Some testIv) ''key''
                 ''encryption_key_here'' ''test2'' ''other_endpoint''
                 (snd (apiHandlerBuilder test_env test_network (Some testIv) ''key''
                         ''encryption_key_here'' ''test1'' ''default_endpoint_id'' test_store [] 1
                         [DNum 1]) @ [])
                 [] 1 [DNum 2])) = [rq2]
          \<and> url rq2 = ''https://clocktick.dev/api/v1/jobs''
          \<and> request_body rq2 = Some b2
          \<and> get_property b2 ''start_from'' =
              Some (DObj [(''type'', DStr ''datetime''),
                          (''datetime'', DStr ''1970-01-01T00:00:00.000Z'')])
          \<and> get_property b2 ''run_every'' = Some DNull"
    by blast
  with p e show ?thesis by (intro conjI)
qed

end
